theory Spec2Isabelle
  imports Complex_Main "HOL-Library.AList"
begin

section \<open>JavaScript values\<close>

text \<open>
  The store keeps JSON-like data.  A number is a double; the model keeps the three
  non-finite doubles apart from the finite ones and computes on finite numbers exactly
  (rounding, overflow to an infinity and the negative zero are not modelled).
\<close>

datatype jsnum = Fin rat | PosInfinity | NegInfinity | NaN

text \<open>
  Arrays and objects carry the address of the heap cell they live in, which is what
  \<^verbatim>\<open>===\<close> compares.  A value is a finite tree: a cyclic structure is not a value of this
  type.  \<open>JHole\<close> is the missing element of a sparse array and occurs only as an array
  element.  Properties are kept in insertion order (the runtime lists the keys that are
  array indices first; no operation of the store depends on the order).
\<close>

datatype jsval =
    JUndefined
  | JNull
  | JBool bool
  | JNum jsnum
  | JStr string
  | JArr nat "jsval list"
  | JObj nat "(string \<times> jsval) list"
  | JHole

type_synonym props = "(string \<times> jsval) list"

text \<open>
  What reading a property can give besides data: a built-in of the runtime that a plain
  object or an array inherits.
\<close>

datatype builtin =
    ObjectPrototype
  | ArrayPrototype
  | ObjectMember string
  | ArrayMember string

datatype looked = Data jsval | Builtin builtin

text \<open>The prototype of the document object: the default one, or what a caller put there.\<close>

datatype proto = DefaultProto | NullProto | ObjProto nat props | ArrProto nat "jsval list"

subsection \<open>Operators\<close>

fun typeof_val :: "jsval \<Rightarrow> string" where
  "typeof_val JUndefined = ''undefined''"
| "typeof_val JNull = ''object''"
| "typeof_val (JBool b) = ''boolean''"
| "typeof_val (JNum n) = ''number''"
| "typeof_val (JStr s) = ''string''"
| "typeof_val (JArr a es) = ''object''"
| "typeof_val (JObj a ps) = ''object''"
| "typeof_val JHole = ''undefined''"

fun typeof :: "looked \<Rightarrow> string" where
  "typeof (Data v) = typeof_val v"
| "typeof (Builtin ObjectPrototype) = ''object''"
| "typeof (Builtin ArrayPrototype) = ''object''"
| "typeof (Builtin (ObjectMember n)) = ''function''"
| "typeof (Builtin (ArrayMember n)) = ''function''"

fun isArray :: "looked \<Rightarrow> bool" where
  "isArray (Data (JArr a es)) = True"
| "isArray (Builtin ArrayPrototype) = True"
| "isArray x = False"

fun truthy_val :: "jsval \<Rightarrow> bool" where
  "truthy_val JUndefined = False"
| "truthy_val JNull = False"
| "truthy_val (JBool b) = b"
| "truthy_val (JNum n) = (n \<noteq> Fin 0 \<and> n \<noteq> NaN)"
| "truthy_val (JStr s) = (s \<noteq> [])"
| "truthy_val (JArr a es) = True"
| "truthy_val (JObj a ps) = True"
| "truthy_val JHole = False"

fun truthy :: "looked \<Rightarrow> bool" where
  "truthy (Data v) = truthy_val v"
| "truthy (Builtin b) = True"

text \<open>\<^verbatim>\<open>x || null\<close>\<close>

definition or_null :: "looked \<Rightarrow> looked" where
  "or_null x = (if truthy x then x else Data JNull)"

text \<open>\<^verbatim>\<open>===\<close>: by value on primitives (no number equals NaN), by address on arrays and objects.\<close>

definition num_eq :: "jsnum \<Rightarrow> jsnum \<Rightarrow> bool" where
  "num_eq m n = (m \<noteq> NaN \<and> m = n)"

definition strict_eq :: "jsval \<Rightarrow> jsval \<Rightarrow> bool" where
  "strict_eq x y =
     (case x of
        JUndefined \<Rightarrow> (y = JUndefined \<or> y = JHole)
      | JHole \<Rightarrow> (y = JUndefined \<or> y = JHole)
      | JNull \<Rightarrow> (y = JNull)
      | JBool a \<Rightarrow> (y = JBool a)
      | JNum m \<Rightarrow> (case y of JNum n \<Rightarrow> num_eq m n | _ \<Rightarrow> False)
      | JStr a \<Rightarrow> (y = JStr a)
      | JArr a es \<Rightarrow> (case y of JArr b fs \<Rightarrow> a = b | _ \<Rightarrow> False)
      | JObj a ps \<Rightarrow> (case y of JObj b qs \<Rightarrow> a = b | _ \<Rightarrow> False))"

fun strict_eq_looked :: "looked \<Rightarrow> jsval \<Rightarrow> bool" where
  "strict_eq_looked (Data x) v = strict_eq x v"
| "strict_eq_looked (Builtin b) v = False"

text \<open>The primitive values: everything but arrays and objects.\<close>

fun primitive :: "jsval \<Rightarrow> bool" where
  "primitive (JArr a es) = False"
| "primitive (JObj a ps) = False"
| "primitive v = True"

text \<open>Deep equality: the same tree once the addresses are forgotten.\<close>

primrec erase :: "jsval \<Rightarrow> jsval" where
  "erase JUndefined = JUndefined"
| "erase JNull = JNull"
| "erase (JBool b) = JBool b"
| "erase (JNum n) = JNum n"
| "erase (JStr s) = JStr s"
| "erase (JArr a es) = JArr 0 (map erase es)"
| "erase (JObj a ps) = JObj 0 (map (map_prod id erase) ps)"
| "erase JHole = JHole"

definition deep_equal :: "jsval \<Rightarrow> jsval \<Rightarrow> bool" where
  "deep_equal v w = (erase v = erase w)"

section \<open>JSON\<close>

text \<open>
  The content of a file that parses, as the tree its text denotes.  Writing the text of a
  tree and reading it back is the runtime's work and gives the same tree.
\<close>

datatype json =
    Json_null
  | Json_bool bool
  | Json_num rat
  | Json_str string
  | Json_arr "json list"
  | Json_obj "(string \<times> json) list"

text \<open>
  \<^verbatim>\<open>JSON.stringify\<close>: \<open>None\<close> where the runtime gives \<^verbatim>\<open>undefined\<close>.  Such a property
  of an object is left out, such an element of an array is written \<^verbatim>\<open>null\<close>, and so is a
  number that is not finite.
\<close>

fun keep_defined :: "(string \<times> json option) list \<Rightarrow> (string \<times> json) list" where
  "keep_defined [] = []"
| "keep_defined ((k, None) # ps) = keep_defined ps"
| "keep_defined ((k, Some j) # ps) = (k, j) # keep_defined ps"

definition or_json_null :: "json option \<Rightarrow> json" where
  "or_json_null x = (case x of None \<Rightarrow> Json_null | Some j \<Rightarrow> j)"

primrec stringify :: "jsval \<Rightarrow> json option" where
  "stringify JUndefined = None"
| "stringify JNull = Some Json_null"
| "stringify (JBool b) = Some (Json_bool b)"
| "stringify (JNum n) = Some (case n of Fin r \<Rightarrow> Json_num r | _ \<Rightarrow> Json_null)"
| "stringify (JStr s) = Some (Json_str s)"
| "stringify (JArr a es) = Some (Json_arr (map (or_json_null \<circ> stringify) es))"
| "stringify (JObj a ps) = Some (Json_obj (keep_defined (map (map_prod id stringify) ps)))"
| "stringify JHole = None"

definition stringify_doc :: "props \<Rightarrow> (string \<times> json) list" where
  "stringify_doc ps = keep_defined (map (map_prod id stringify) ps)"

text \<open>
  \<^verbatim>\<open>JSON.parse\<close>: every array and object is a new cell, taken from the counter of free
  addresses.  A key written twice keeps its first place and its last value.
\<close>

fun parse :: "nat \<Rightarrow> json \<Rightarrow> jsval \<times> nat"
  and parse_list :: "nat \<Rightarrow> json list \<Rightarrow> jsval list \<times> nat"
  and parse_props :: "nat \<Rightarrow> (string \<times> json) list \<Rightarrow> props \<Rightarrow> props \<times> nat" where
  "parse n Json_null = (JNull, n)"
| "parse n (Json_bool b) = (JBool b, n)"
| "parse n (Json_num r) = (JNum (Fin r), n)"
| "parse n (Json_str s) = (JStr s, n)"
| "parse n (Json_arr js) = (case parse_list (Suc n) js of (es, m) \<Rightarrow> (JArr n es, m))"
| "parse n (Json_obj kjs) = (case parse_props (Suc n) kjs [] of (ps, m) \<Rightarrow> (JObj n ps, m))"
| "parse_list n [] = ([], n)"
| "parse_list n (j # js) =
     (case parse n j of (v, m) \<Rightarrow> (case parse_list m js of (vs, l) \<Rightarrow> (v # vs, l)))"
| "parse_props n [] acc = (acc, n)"
| "parse_props n ((k, j) # kjs) acc =
     (case parse n j of (v, m) \<Rightarrow> parse_props m kjs (AList.update k v acc))"

section \<open>Properties and the prototype chain\<close>

text \<open>The index a property name denotes on an array: a canonical decimal below \<open>2^32 - 1\<close>.\<close>

primrec parse_digits :: "string \<Rightarrow> nat \<Rightarrow> nat option" where
  "parse_digits [] acc = Some acc"
| "parse_digits (c # cs) acc =
     (if 48 \<le> (of_char c :: nat) \<and> (of_char c :: nat) \<le> 57
      then parse_digits cs (10 * acc + (of_char c - 48)) else None)"

definition array_index :: "string \<Rightarrow> nat option" where
  "array_index s =
     (if s = [] \<or> (hd s = CHR ''0'' \<and> tl s \<noteq> []) then None
      else case parse_digits s 0 of
        None \<Rightarrow> None
      | Some i \<Rightarrow> if i < 4294967295 then Some i else None)"

text \<open>The own properties of an array: its elements that are not holes, and \<^verbatim>\<open>length\<close>.\<close>

definition array_own :: "jsval list \<Rightarrow> string \<Rightarrow> jsval option" where
  "array_own es k =
     (case array_index k of
        Some i \<Rightarrow> if i < length es \<and> es ! i \<noteq> JHole then Some (es ! i) else None
      | None \<Rightarrow> if k = ''length'' then Some (JNum (Fin (of_nat (length es)))) else None)"

section \<open>The world outside a store\<close>

text \<open>
  A file either holds a JSON object or text that does not parse (a file whose JSON is not
  an object is outside the model).  Writing a file always succeeds, and every call of
  \<^verbatim>\<open>writeFileSync\<close> is recorded, in order, in \<open>writes\<close>.  The world also holds
  the next free address (the cells of the values that callers hand in lie below it), the
  lines written by \<^verbatim>\<open>console.error\<close>, and the names of the properties that plain
  objects and arrays inherit from the runtime.
\<close>

datatype content = Document "(string \<times> json) list" | Malformed

record world =
  files :: "string \<Rightarrow> content option"
  writes :: "(string \<times> content) list"
  next_addr :: nat
  log :: "string list"
  object_proto :: "string list"
  array_proto :: "string list"

datatype error =
    INVALID_JSON
  | INVALID_VALUE
  | ARRAY_NOT_FOUND
  | OBJECT_NOT_FOUND
  | ReferenceError string
  | TypeError string
  | ENOENT string

fun message :: "error \<Rightarrow> string" where
  "message INVALID_JSON = ''The database file contains invalid JSON.''"
| "message INVALID_VALUE = ''The value provided cannot be null or undefined.''"
| "message ARRAY_NOT_FOUND = ''The requested key is not an array.''"
| "message OBJECT_NOT_FOUND = ''The requested key is not an object.''"
| "message (ReferenceError m) = m"
| "message (TypeError m) = m"
| "message (ENOENT path) = ''ENOENT: no such file or directory, unlink '' @ path"

text \<open>
  Neither source file binds the name \<^verbatim>\<open>DatabaseError\<close> (\<^verbatim>\<open>Error.js\<close> exports only
  the six error objects), so \<^verbatim>\<open>new DatabaseError(...)\<close> throws this instead.
\<close>

definition new_DatabaseError :: "string \<Rightarrow> error" where
  "new_DatabaseError m = ReferenceError ''DatabaseError is not defined''"

definition existsSync :: "world \<Rightarrow> string \<Rightarrow> bool" where
  "existsSync w path = (files w path \<noteq> None)"

definition writeFileSync :: "world \<Rightarrow> string \<Rightarrow> content \<Rightarrow> world" where
  "writeFileSync w path c =
     w\<lparr>files := (files w)(path \<mapsto> c), writes := writes w @ [(path, c)]\<rparr>"

definition unlinkSync :: "world \<Rightarrow> string \<Rightarrow> error + world" where
  "unlinkSync w path =
     (if existsSync w path then Inr (w\<lparr>files := (files w)(path := None)\<rparr>)
      else Inl (ENOENT path))"

definition console_error :: "world \<Rightarrow> string \<Rightarrow> world" where
  "console_error w line = w\<lparr>log := log w @ [line]\<rparr>"

subsection \<open>Reading, testing, writing and deleting a property\<close>

text \<open>
  A lookup that reaches the runtime's object prototype: \<^verbatim>\<open>__proto__\<close> is an accessor
  there and gives the prototype of the object the lookup started from.
\<close>

definition object_proto_get :: "world \<Rightarrow> looked \<Rightarrow> string \<Rightarrow> looked" where
  "object_proto_get w recv_proto k =
     (if k \<in> set (object_proto w)
      then (if k = ''__proto__'' then recv_proto else Builtin (ObjectMember k))
      else Data JUndefined)"

definition array_get :: "world \<Rightarrow> jsval list \<Rightarrow> string \<Rightarrow> looked" where
  "array_get w es k =
     (case array_own es k of
        Some v \<Rightarrow> Data v
      | None \<Rightarrow> if k \<in> set (array_proto w) then Builtin (ArrayMember k)
                else object_proto_get w (Builtin ArrayPrototype) k)"

text \<open>\<^verbatim>\<open>data[key]\<close> on the document, own properties first, then the chain.\<close>

definition proto_get :: "world \<Rightarrow> proto \<Rightarrow> string \<Rightarrow> looked" where
  "proto_get w pr k =
     (case pr of
        DefaultProto \<Rightarrow> object_proto_get w (Builtin ObjectPrototype) k
      | NullProto \<Rightarrow> Data JUndefined
      | ObjProto a qs \<Rightarrow>
          (case map_of qs k of
             Some v \<Rightarrow> Data v
           | None \<Rightarrow> object_proto_get w (Data (JObj a qs)) k)
      | ArrProto a es \<Rightarrow>
          (case array_own es k of
             Some v \<Rightarrow> Data v
           | None \<Rightarrow> if k \<in> set (array_proto w) then Builtin (ArrayMember k)
                     else object_proto_get w (Data (JArr a es)) k))"

definition get_prop :: "world \<Rightarrow> props \<Rightarrow> proto \<Rightarrow> string \<Rightarrow> looked" where
  "get_prop w ps pr k = (case map_of ps k of Some v \<Rightarrow> Data v | None \<Rightarrow> proto_get w pr k)"

text \<open>\<^verbatim>\<open>key in data\<close>\<close>

definition proto_has :: "world \<Rightarrow> proto \<Rightarrow> string \<Rightarrow> bool" where
  "proto_has w pr k =
     (case pr of
        DefaultProto \<Rightarrow> k \<in> set (object_proto w)
      | NullProto \<Rightarrow> False
      | ObjProto a qs \<Rightarrow> map_of qs k \<noteq> None \<or> k \<in> set (object_proto w)
      | ArrProto a es \<Rightarrow>
          array_own es k \<noteq> None \<or> k \<in> set (array_proto w) \<or> k \<in> set (object_proto w))"

definition has_prop :: "world \<Rightarrow> props \<Rightarrow> proto \<Rightarrow> string \<Rightarrow> bool" where
  "has_prop w ps pr k = (map_of ps k \<noteq> None \<or> proto_has w pr k)"

text \<open>
  \<^verbatim>\<open>data[key] = value\<close>.  An own property is overwritten; otherwise the property is
  added, unless the name is \<^verbatim>\<open>__proto__\<close> and the lookup reaches the accessor of the
  object prototype: its setter replaces the prototype by an object or \<^verbatim>\<open>null\<close> and
  ignores any other value.
\<close>

definition reaches_setter :: "world \<Rightarrow> props \<Rightarrow> proto \<Rightarrow> string \<Rightarrow> bool" where
  "reaches_setter w ps pr k =
     (k = ''__proto__'' \<and> map_of ps k = None \<and> k \<in> set (object_proto w) \<and>
      (case pr of
         DefaultProto \<Rightarrow> True
       | NullProto \<Rightarrow> False
       | ObjProto a qs \<Rightarrow> map_of qs k = None
       | ArrProto a es \<Rightarrow> True))"

definition set_proto :: "proto \<Rightarrow> jsval \<Rightarrow> proto" where
  "set_proto pr v =
     (case v of
        JNull \<Rightarrow> NullProto
      | JObj a qs \<Rightarrow> ObjProto a qs
      | JArr a es \<Rightarrow> ArrProto a es
      | _ \<Rightarrow> pr)"

definition put_prop :: "world \<Rightarrow> props \<Rightarrow> proto \<Rightarrow> string \<Rightarrow> jsval \<Rightarrow> props \<times> proto" where
  "put_prop w ps pr k v =
     (if reaches_setter w ps pr k then (ps, set_proto pr v)
      else (AList.update k v ps, pr))"

text \<open>\<^verbatim>\<open>Object.keys(data)\<close>\<close>

definition object_keys :: "props \<Rightarrow> string list" where
  "object_keys ps = map fst ps"

text \<open>\<^verbatim>\<open>array.filter(item => item !== value)\<close>: holes are skipped.\<close>

definition filter_ne :: "jsval list \<Rightarrow> jsval \<Rightarrow> jsval list" where
  "filter_ne es value = filter (\<lambda>item. item \<noteq> JHole \<and> \<not> strict_eq item value) es"

fun elements :: "looked \<Rightarrow> jsval list" where
  "elements (Data (JArr a es)) = es"
| "elements x = []"

text \<open>
  \<^verbatim>\<open>delete cell[subKey]\<close> changes the cell in place, so every place of the document that
  holds the cell sees it.  On an array, deleting an element leaves a hole; deleting
  \<^verbatim>\<open>length\<close> throws, since the body of a class is strict code.
\<close>

definition array_delete :: "jsval list \<Rightarrow> string \<Rightarrow> jsval list" where
  "array_delete es s =
     (case array_index s of
        Some i \<Rightarrow> if i < length es then es[i := JHole] else es
      | None \<Rightarrow> es)"

primrec delete_cell :: "nat \<Rightarrow> string \<Rightarrow> jsval \<Rightarrow> jsval" where
  "delete_cell a s JUndefined = JUndefined"
| "delete_cell a s JNull = JNull"
| "delete_cell a s (JBool b) = JBool b"
| "delete_cell a s (JNum n) = JNum n"
| "delete_cell a s (JStr t) = JStr t"
| "delete_cell a s (JArr b es) =
     JArr b (if b = a then array_delete (map (delete_cell a s) es) s
             else map (delete_cell a s) es)"
| "delete_cell a s (JObj b ps) =
     JObj b (if b = a then AList.delete s (map (map_prod id (delete_cell a s)) ps)
             else map (map_prod id (delete_cell a s)) ps)"
| "delete_cell a s JHole = JHole"

definition delete_cell_props :: "nat \<Rightarrow> string \<Rightarrow> props \<Rightarrow> props" where
  "delete_cell_props a s ps = map (map_prod id (delete_cell a s)) ps"

definition delete_cell_proto :: "nat \<Rightarrow> string \<Rightarrow> proto \<Rightarrow> proto" where
  "delete_cell_proto a s pr =
     (case pr of
        ObjProto b qs \<Rightarrow>
          ObjProto b (if b = a then AList.delete s (map (map_prod id (delete_cell a s)) qs)
                      else map (map_prod id (delete_cell a s)) qs)
      | ArrProto b es \<Rightarrow>
          ArrProto b (if b = a then array_delete (map (delete_cell a s) es) s
                      else map (delete_cell a s) es)
      | _ \<Rightarrow> pr)"

definition delete_length :: error where
  "delete_length = TypeError ''Cannot delete property 'length' of [object Array]''"

subsection \<open>Arithmetic\<close>

definition num_sign :: "jsnum \<Rightarrow> int" where
  "num_sign n = (case n of Fin r \<Rightarrow> (if r < 0 then - 1 else 1)
                 | PosInfinity \<Rightarrow> 1 | NegInfinity \<Rightarrow> - 1 | NaN \<Rightarrow> 1)"

definition infinity :: "int \<Rightarrow> jsnum" where
  "infinity s = (if s < 0 then NegInfinity else PosInfinity)"

definition num_neg :: "jsnum \<Rightarrow> jsnum" where
  "num_neg n = (case n of Fin r \<Rightarrow> Fin (- r) | PosInfinity \<Rightarrow> NegInfinity
                | NegInfinity \<Rightarrow> PosInfinity | NaN \<Rightarrow> NaN)"

definition num_add :: "jsnum \<Rightarrow> jsnum \<Rightarrow> jsnum" where
  "num_add m n =
     (case m of
        NaN \<Rightarrow> NaN
      | Fin a \<Rightarrow> (case n of Fin b \<Rightarrow> Fin (a + b) | _ \<Rightarrow> n)
      | _ \<Rightarrow> (case n of Fin b \<Rightarrow> m | NaN \<Rightarrow> NaN | _ \<Rightarrow> if m = n then m else NaN))"

definition num_sub :: "jsnum \<Rightarrow> jsnum \<Rightarrow> jsnum" where
  "num_sub m n = num_add m (num_neg n)"

definition num_mul :: "jsnum \<Rightarrow> jsnum \<Rightarrow> jsnum" where
  "num_mul m n =
     (if m = NaN \<or> n = NaN then NaN
      else case (m, n) of
        (Fin a, Fin b) \<Rightarrow> Fin (a * b)
      | _ \<Rightarrow> if m = Fin 0 \<or> n = Fin 0 then NaN else infinity (num_sign m * num_sign n))"

definition num_div :: "jsnum \<Rightarrow> jsnum \<Rightarrow> jsnum" where
  "num_div m n =
     (if m = NaN \<or> n = NaN then NaN
      else case n of
        Fin b \<Rightarrow>
          (case m of
             Fin a \<Rightarrow> if b = 0 then (if a = 0 then NaN else infinity (num_sign m))
                      else Fin (a / b)
           | _ \<Rightarrow> infinity (num_sign m * num_sign n))
      | _ \<Rightarrow> (case m of Fin a \<Rightarrow> Fin 0 | _ \<Rightarrow> NaN))"

section \<open>The store that keeps the document in memory\<close>

text \<open>
  The class \<^verbatim>\<open>HelixiaDB\<close> that loads the file once, on construction, and throws its
  errors.  An operation gives what it returns or throws, the world and the instance
  after it.  The document object itself has no address in the model: no value refers to it.
\<close>

record db_mem =
  filePath :: string
  data :: props
  data_proto :: proto

type_synonym 'r outcome_mem = "(error + 'r) \<times> world \<times> db_mem"

definition saveData_mem :: "world \<Rightarrow> db_mem \<Rightarrow> world" where
  "saveData_mem w db = writeFileSync w (filePath db) (Document (stringify_doc (data db)))"

definition loadData_mem :: "world \<Rightarrow> db_mem \<Rightarrow> unit outcome_mem" where
  "loadData_mem w db =
     (if existsSync w (filePath db) then
        (case files w (filePath db) of
           Some (Document kjs) \<Rightarrow>
             (case parse_props (next_addr w) kjs [] of
                (ps, n) \<Rightarrow> (Inr (), w\<lparr>next_addr := n\<rparr>, db\<lparr>data := ps, data_proto := DefaultProto\<rparr>))
         | _ \<Rightarrow> (Inl INVALID_JSON, w, db))
      else
        (let db' = db\<lparr>data := [], data_proto := DefaultProto\<rparr>
         in (Inr (), saveData_mem w db', db')))"

definition HelixiaDB_mem :: "world \<Rightarrow> string \<Rightarrow> unit outcome_mem" where
  "HelixiaDB_mem w path = loadData_mem w \<lparr>filePath = path, data = [], data_proto = DefaultProto\<rparr>"

definition set_mem :: "world \<Rightarrow> db_mem \<Rightarrow> string \<Rightarrow> jsval \<Rightarrow> unit outcome_mem" where
  "set_mem w db key value =
     (if strict_eq value JNull \<or> strict_eq value JUndefined then (Inl INVALID_VALUE, w, db)
      else case put_prop w (data db) (data_proto db) key value of
        (ps, pr) \<Rightarrow>
          (let db' = db\<lparr>data := ps, data_proto := pr\<rparr>
           in (Inr (), saveData_mem w db', db')))"

definition get_mem :: "world \<Rightarrow> db_mem \<Rightarrow> string \<Rightarrow> looked" where
  "get_mem w db key = or_null (get_prop w (data db) (data_proto db) key)"

definition remove_mem :: "world \<Rightarrow> db_mem \<Rightarrow> string \<Rightarrow> unit outcome_mem" where
  "remove_mem w db key =
     (let db' = db\<lparr>data := AList.delete key (data db)\<rparr>
      in (Inr (), saveData_mem w db', db'))"

definition delete_mem :: "world \<Rightarrow> db_mem \<Rightarrow> string \<Rightarrow> jsval \<Rightarrow> unit outcome_mem" where
  "delete_mem w db key value =
     (let x = get_prop w (data db) (data_proto db) key in
      if \<not> isArray x then (Inl ARRAY_NOT_FOUND, w, db)
      else case put_prop w (data db) (data_proto db) key
                  (JArr (next_addr w) (filter_ne (elements x) value)) of
        (ps, pr) \<Rightarrow>
          (let db' = db\<lparr>data := ps, data_proto := pr\<rparr>;
               w' = w\<lparr>next_addr := Suc (next_addr w)\<rparr>
           in (Inr (), saveData_mem w' db', db')))"

definition delete_in :: "db_mem \<Rightarrow> nat \<Rightarrow> string \<Rightarrow> db_mem" where
  "delete_in db a s =
     db\<lparr>data := delete_cell_props a s (data db),
        data_proto := delete_cell_proto a s (data_proto db)\<rparr>"

definition deleteKey_mem :: "world \<Rightarrow> db_mem \<Rightarrow> string \<Rightarrow> string \<Rightarrow> unit outcome_mem" where
  "deleteKey_mem w db key subKey =
     (let x = get_prop w (data db) (data_proto db) key in
      if typeof x \<noteq> ''object'' \<or> x = Data JNull then (Inl OBJECT_NOT_FOUND, w, db)
      else case x of
        Data (JObj a ps) \<Rightarrow>
          (let db' = delete_in db a subKey in (Inr (), saveData_mem w db', db'))
      | Data (JArr a es) \<Rightarrow>
          if subKey = ''length'' then (Inl delete_length, w, db)
          else (let db' = delete_in db a subKey in (Inr (), saveData_mem w db', db'))
      | Builtin ObjectPrototype \<Rightarrow>
          (let w' = w\<lparr>object_proto := removeAll subKey (object_proto w)\<rparr>
           in (Inr (), saveData_mem w' db, db))
      | Builtin ArrayPrototype \<Rightarrow>
          if subKey = ''length'' then (Inl delete_length, w, db)
          else (let w' = w\<lparr>array_proto := removeAll subKey (array_proto w)\<rparr>
                in (Inr (), saveData_mem w' db, db))
      | _ \<Rightarrow> (Inr (), saveData_mem w db, db))"

definition deleteEach_step_mem :: "jsval \<Rightarrow> string \<Rightarrow> world \<times> db_mem \<Rightarrow> world \<times> db_mem" where
  "deleteEach_step_mem value key = (\<lambda>(w, db).
     (let x = get_prop w (data db) (data_proto db) key in
      if isArray x then
        (case put_prop w (data db) (data_proto db) key
                (JArr (next_addr w) (filter_ne (elements x) value)) of
           (ps, pr) \<Rightarrow> (w\<lparr>next_addr := Suc (next_addr w)\<rparr>, db\<lparr>data := ps, data_proto := pr\<rparr>))
      else if strict_eq_looked x value then (w, db\<lparr>data := AList.delete key (data db)\<rparr>)
      else (w, db)))"

definition deleteEach_mem :: "world \<Rightarrow> db_mem \<Rightarrow> jsval \<Rightarrow> unit outcome_mem" where
  "deleteEach_mem w db value =
     (case fold (deleteEach_step_mem value) (object_keys (data db)) (w, db) of
        (w', db') \<Rightarrow> (Inr (), saveData_mem w' db', db'))"

definition has_mem :: "world \<Rightarrow> db_mem \<Rightarrow> string \<Rightarrow> bool" where
  "has_mem w db key = has_prop w (data db) (data_proto db) key"

definition fetch_mem :: "world \<Rightarrow> db_mem \<Rightarrow> string \<Rightarrow> looked" where
  "fetch_mem w db key = get_mem w db key"

text \<open>\<^verbatim>\<open>all()\<close> returns the document object itself: its own properties and its prototype.\<close>

definition all_mem :: "db_mem \<Rightarrow> props \<times> proto" where
  "all_mem db = (data db, data_proto db)"

definition clear_mem :: "world \<Rightarrow> db_mem \<Rightarrow> unit outcome_mem" where
  "clear_mem w db =
     (let db' = db\<lparr>data := [], data_proto := DefaultProto\<rparr>
      in (Inr (), saveData_mem w db', db'))"

definition destroy_mem :: "world \<Rightarrow> db_mem \<Rightarrow> unit outcome_mem" where
  "destroy_mem w db =
     (case unlinkSync w (filePath db) of
        Inl e \<Rightarrow> (Inl e, w, db)
      | Inr w' \<Rightarrow> (Inr (), w', db))"

text \<open>\<^verbatim>\<open>cell[subKey]\<close> on what passed the shape check of \<^verbatim>\<open>fetchObject\<close>.\<close>

definition member_get :: "world \<Rightarrow> looked \<Rightarrow> string \<Rightarrow> looked" where
  "member_get w x s =
     (case x of
        Data (JObj a ps) \<Rightarrow>
          (case map_of ps s of
             Some v \<Rightarrow> Data v
           | None \<Rightarrow> object_proto_get w (Builtin ObjectPrototype) s)
      | Data (JArr a es) \<Rightarrow> array_get w es s
      | Builtin ObjectPrototype \<Rightarrow> object_proto_get w (Data JNull) s
      | Builtin ArrayPrototype \<Rightarrow> array_get w [] s
      | _ \<Rightarrow> Data JUndefined)"

definition fetchObject_mem :: "world \<Rightarrow> db_mem \<Rightarrow> string \<Rightarrow> string \<Rightarrow> error + looked" where
  "fetchObject_mem w db key subKey =
     (let x = get_prop w (data db) (data_proto db) key in
      if typeof x \<noteq> ''object'' \<or> x = Data JNull then Inl OBJECT_NOT_FOUND
      else Inr (or_null (member_get w x subKey)))"

fun number_of :: "looked \<Rightarrow> jsnum" where
  "number_of (Data (JNum n)) = n"
| "number_of x = NaN"

definition apply_operator :: "string \<Rightarrow> jsnum \<Rightarrow> jsnum \<Rightarrow> jsnum" where
  "apply_operator operator m value =
     (if operator = ''+'' then num_add m value
      else if operator = ''-'' then num_sub m value
      else if operator = ''*'' then num_mul m value
      else if operator = ''/'' then num_div m value
      else m)"

definition math_mem :: "world \<Rightarrow> db_mem \<Rightarrow> string \<Rightarrow> string \<Rightarrow> jsnum \<Rightarrow> looked outcome_mem" where
  "math_mem w db key operator value =
     (let x = get_prop w (data db) (data_proto db) key in
      if typeof x \<noteq> ''number'' then
        (Inl (new_DatabaseError ''The value associated with the key is not a number.''), w, db)
      else if operator \<notin> set [''+'', ''-'', ''*'', ''/''] then
        (Inl (new_DatabaseError ''Invalid operator.''), w, db)
      else case put_prop w (data db) (data_proto db) key
                  (JNum (apply_operator operator (number_of x) value)) of
        (ps, pr) \<Rightarrow>
          (let db' = db\<lparr>data := ps, data_proto := pr\<rparr>;
               w' = saveData_mem w db'
           in (Inr (get_prop w' ps pr key), w', db')))"

section \<open>The store that reloads the file in every operation\<close>

text \<open>
  The class \<^verbatim>\<open>HelixiaDB\<close> of \<^verbatim>\<open>index.js\<close>: an instance is its file path, every
  operation reads the file again, and every error is caught, written to the console and
  answered by a default.  An operation gives what it returns and the world after it.
\<close>

definition saveData_idx :: "world \<Rightarrow> string \<Rightarrow> props \<Rightarrow> world" where
  "saveData_idx w fp d = writeFileSync w fp (Document (stringify_doc d))"

definition loadData_idx :: "world \<Rightarrow> string \<Rightarrow> props \<times> world" where
  "loadData_idx w fp =
     (if existsSync w fp then
        (case files w fp of
           Some (Document kjs) \<Rightarrow>
             (case parse_props (next_addr w) kjs [] of (ps, n) \<Rightarrow> (ps, w\<lparr>next_addr := n\<rparr>))
         | _ \<Rightarrow> ([], console_error w (message INVALID_JSON)))
      else ([], saveData_idx w fp []))"

definition set_idx :: "world \<Rightarrow> string \<Rightarrow> string \<Rightarrow> jsval \<Rightarrow> world" where
  "set_idx w fp key value =
     (if strict_eq value JNull \<or> strict_eq value JUndefined
      then console_error w (message INVALID_VALUE)
      else case loadData_idx w fp of
        (d, w1) \<Rightarrow>
          (case put_prop w1 d DefaultProto key value of
             (ps, pr) \<Rightarrow> saveData_idx w1 fp ps))"

definition get_idx :: "world \<Rightarrow> string \<Rightarrow> string \<Rightarrow> looked \<times> world" where
  "get_idx w fp key =
     (case loadData_idx w fp of
        (d, w1) \<Rightarrow> (or_null (get_prop w1 d DefaultProto key), w1))"

definition remove_idx :: "world \<Rightarrow> string \<Rightarrow> string \<Rightarrow> world" where
  "remove_idx w fp key =
     (case loadData_idx w fp of
        (d, w1) \<Rightarrow> saveData_idx w1 fp (AList.delete key d))"

definition delete_idx :: "world \<Rightarrow> string \<Rightarrow> string \<Rightarrow> jsval \<Rightarrow> world" where
  "delete_idx w fp key value =
     (case loadData_idx w fp of
        (d, w1) \<Rightarrow>
          (let x = get_prop w1 d DefaultProto key in
           if \<not> isArray x then console_error w1 (message ARRAY_NOT_FOUND)
           else case put_prop w1 d DefaultProto key
                       (JArr (next_addr w1) (filter_ne (elements x) value)) of
             (ps, pr) \<Rightarrow> saveData_idx (w1\<lparr>next_addr := Suc (next_addr w1)\<rparr>) fp ps))"

definition deleteKey_idx :: "world \<Rightarrow> string \<Rightarrow> string \<Rightarrow> string \<Rightarrow> world" where
  "deleteKey_idx w fp key subKey =
     (case loadData_idx w fp of
        (d, w1) \<Rightarrow>
          (let x = get_prop w1 d DefaultProto key in
           if typeof x \<noteq> ''object'' \<or> x = Data JNull
           then console_error w1 (message OBJECT_NOT_FOUND)
           else case x of
             Data (JObj a ps) \<Rightarrow> saveData_idx w1 fp (delete_cell_props a subKey d)
           | Data (JArr a es) \<Rightarrow>
               if subKey = ''length'' then console_error w1 (message delete_length)
               else saveData_idx w1 fp (delete_cell_props a subKey d)
           | Builtin ObjectPrototype \<Rightarrow>
               saveData_idx (w1\<lparr>object_proto := removeAll subKey (object_proto w1)\<rparr>) fp d
           | Builtin ArrayPrototype \<Rightarrow>
               if subKey = ''length'' then console_error w1 (message delete_length)
               else saveData_idx (w1\<lparr>array_proto := removeAll subKey (array_proto w1)\<rparr>) fp d
           | _ \<Rightarrow> saveData_idx w1 fp d))"

definition deleteEach_step_idx ::
  "jsval \<Rightarrow> string \<Rightarrow> world \<times> props \<times> proto \<Rightarrow> world \<times> props \<times> proto" where
  "deleteEach_step_idx value key = (\<lambda>(w, d, pr).
     (let x = get_prop w d pr key in
      if isArray x then
        (case put_prop w d pr key (JArr (next_addr w) (filter_ne (elements x) value)) of
           (ps, pr') \<Rightarrow> (w\<lparr>next_addr := Suc (next_addr w)\<rparr>, ps, pr'))
      else if strict_eq_looked x value then (w, AList.delete key d, pr)
      else (w, d, pr)))"

definition deleteEach_idx :: "world \<Rightarrow> string \<Rightarrow> jsval \<Rightarrow> world" where
  "deleteEach_idx w fp value =
     (case loadData_idx w fp of
        (d, w1) \<Rightarrow>
          (case fold (deleteEach_step_idx value) (object_keys d) (w1, d, DefaultProto) of
             (w2, ps, pr) \<Rightarrow> saveData_idx w2 fp ps))"

definition has_idx :: "world \<Rightarrow> string \<Rightarrow> string \<Rightarrow> bool \<times> world" where
  "has_idx w fp key =
     (case loadData_idx w fp of (d, w1) \<Rightarrow> (has_prop w1 d DefaultProto key, w1))"

definition fetch_idx :: "world \<Rightarrow> string \<Rightarrow> string \<Rightarrow> looked \<times> world" where
  "fetch_idx w fp key = get_idx w fp key"

definition all_idx :: "world \<Rightarrow> string \<Rightarrow> props \<times> world" where
  "all_idx w fp = loadData_idx w fp"

definition clear_idx :: "world \<Rightarrow> string \<Rightarrow> world" where
  "clear_idx w fp = saveData_idx w fp []"

definition destroy_idx :: "world \<Rightarrow> string \<Rightarrow> world" where
  "destroy_idx w fp =
     (case unlinkSync w fp of
        Inl e \<Rightarrow> console_error w (''Failed to destroy file: '' @ message e)
      | Inr w' \<Rightarrow> w')"

definition fetchObject_idx :: "world \<Rightarrow> string \<Rightarrow> string \<Rightarrow> string \<Rightarrow> looked \<times> world" where
  "fetchObject_idx w fp key subKey =
     (case loadData_idx w fp of
        (d, w1) \<Rightarrow>
          (let x = get_prop w1 d DefaultProto key in
           if typeof x \<noteq> ''object'' \<or> x = Data JNull
           then (Data JNull, console_error w1 (message OBJECT_NOT_FOUND))
           else (or_null (member_get w1 x subKey), w1)))"

definition math_idx :: "world \<Rightarrow> string \<Rightarrow> string \<Rightarrow> string \<Rightarrow> jsnum \<Rightarrow> looked \<times> world" where
  "math_idx w fp key operator value =
     (case loadData_idx w fp of
        (d, w1) \<Rightarrow>
          (let x = get_prop w1 d DefaultProto key in
           if typeof x \<noteq> ''number'' then
             (Data JNull, console_error w1 (message
                (new_DatabaseError ''The value associated with the key is not a number.'')))
           else if operator \<notin> set [''+'', ''-'', ''*'', ''/''] then
             (Data JNull, console_error w1 (message (new_DatabaseError ''Invalid operator.'')))
           else if operator = ''/'' \<and> num_eq value (Fin 0) then
             (Data JNull, console_error w1 (message
                (new_DatabaseError ''Division by zero is not allowed.'')))
           else case put_prop w1 d DefaultProto key
                       (JNum (apply_operator operator (number_of x) value)) of
             (ps, pr) \<Rightarrow>
               (let w2 = saveData_idx w1 fp ps in (get_prop w2 ps pr key, w2))))"

section \<open>A concrete world\<close>

text \<open>
  A runtime with no file yet, and the property names that \<^verbatim>\<open>Object.prototype\<close> and
  \<^verbatim>\<open>Array.prototype\<close> give to every plain object and array.
\<close>

definition node_world :: world where
  "node_world =
     \<lparr>files = (\<lambda>path. None),
      writes = [],
      next_addr = 0,
      log = [],
      object_proto =
        [''constructor'', ''__defineGetter__'', ''__defineSetter__'', ''hasOwnProperty'',
         ''__lookupGetter__'', ''__lookupSetter__'', ''isPrototypeOf'',
         ''propertyIsEnumerable'', ''toString'', ''valueOf'', ''__proto__'',
         ''toLocaleString''],
      array_proto =
        [''constructor'', ''at'', ''concat'', ''copyWithin'', ''fill'', ''find'',
         ''findIndex'', ''findLast'', ''findLastIndex'', ''lastIndexOf'', ''pop'', ''push'',
         ''reverse'', ''shift'', ''unshift'', ''slice'', ''sort'', ''splice'', ''includes'',
         ''indexOf'', ''join'', ''keys'', ''entries'', ''values'', ''forEach'', ''filter'',
         ''flat'', ''flatMap'', ''map'', ''every'', ''some'', ''reduce'', ''reduceRight'',
         ''toLocaleString'', ''toString'']\<rparr>"

text \<open>A world whose file \<^verbatim>\<open>database.json\<close> holds a small document, and the store loaded from it.\<close>

definition doc1 :: "(string \<times> json) list" where
  "doc1 =
     [(''name'', Json_str ''x''),
      (''counter'', Json_num 10),
      (''list'', Json_arr [Json_num 1, Json_obj [(''a'', Json_num 1)], Json_num 2, Json_num 1]),
      (''obj'', Json_obj [(''a'', Json_num 1), (''b'', Json_num 2)])]"

definition world1 :: world where
  "world1 = node_world\<lparr>files := (files node_world)(''database.json'' \<mapsto> Document doc1)\<rparr>"

definition data1 :: props where
  "data1 =
     [(''name'', JStr ''x''),
      (''counter'', JNum (Fin 10)),
      (''list'', JArr 0 [JNum (Fin 1), JObj 1 [(''a'', JNum (Fin 1))], JNum (Fin 2), JNum (Fin 1)]),
      (''obj'', JObj 2 [(''a'', JNum (Fin 1)), (''b'', JNum (Fin 2))])]"

definition db1 :: db_mem where
  "db1 = \<lparr>filePath = ''database.json'', data = data1, data_proto = DefaultProto\<rparr>"

definition world1_loaded :: world where
  "world1_loaded = world1\<lparr>next_addr := 3\<rparr>"

section \<open>Notions used in the statements\<close>

text \<open>The heap cell of an array or object; a primitive value has none.\<close>

fun address :: "jsval \<Rightarrow> nat option" where
  "address (JArr a es) = Some a"
| "address (JObj a ps) = Some a"
| "address v = None"

text \<open>
  What the specification says \<^verbatim>\<open>deleteEach(value)\<close> does to one key of the document,
  given what the key held before and what it holds after: an array has lost the elements
  equal to the value (the result of \<^verbatim>\<open>filter\<close> is a new array, and has no holes), any
  other entry equal to the value is gone, and everything else is as it was.
\<close>

definition deleteEach_spec_entry :: "jsval \<Rightarrow> jsval option \<Rightarrow> jsval option \<Rightarrow> bool" where
  "deleteEach_spec_entry value before after =
     (case before of
        None \<Rightarrow> after = None
      | Some (JArr a es) \<Rightarrow>
          (case after of
             Some (JArr b fs) \<Rightarrow> fs = filter_ne es value
           | _ \<Rightarrow> False)
      | Some v \<Rightarrow> after = (if strict_eq v value then None else Some v))"






text \<open>Whether a value is, or holds somewhere inside, the cell at an address.\<close>

fun occurs :: "nat \<Rightarrow> jsval \<Rightarrow> bool" where
  "occurs a (JArr b es) = (b = a \<or> (\<exists>e\<in>set es. occurs a e))"
| "occurs a (JObj b ps) = (b = a \<or> (\<exists>p\<in>set ps. occurs a (snd p)))"
| "occurs a v = False"

section \<open>Properties\<close>

subsection \<open>Presence and reading of a key\<close>

lemma constructor_mem_fresh:
  "HelixiaDB_mem node_world path =
     (Inr (), writeFileSync node_world path (Document []),
      \<lparr>filePath = path, data = [], data_proto = DefaultProto\<rparr>)"
  by (simp add: HelixiaDB_mem_def loadData_mem_def existsSync_def node_world_def
      saveData_mem_def writeFileSync_def stringify_doc_def)

text \<open>
  Claim C9.  In the store that keeps the document in memory, storing a falsy value (one
  that is neither \<^verbatim>\<open>null\<close> nor \<^verbatim>\<open>undefined\<close>, such as \<open>0\<close>, \<^verbatim>\<open>false\<close> or the empty
  string) under a key other than \<^verbatim>\<open>__proto__\<close> succeeds and gives a state in which
  \<^verbatim>\<open>has(key)\<close> is true while \<^verbatim>\<open>get(key)\<close> and \<^verbatim>\<open>fetch(key)\<close> return \<^verbatim>\<open>null\<close>.
\<close>

theorem has_get_disagree_on_falsy:
  assumes "\<not> truthy_val v" and "\<not> strict_eq v JNull" and "\<not> strict_eq v JUndefined"
    and "key \<noteq> ''__proto__''"
  shows "case set_mem w db key v of
           (r, w', db') \<Rightarrow>
             r = Inr () \<and> has_mem w' db' key \<and> get_mem w' db' key = Data JNull \<and>
             fetch_mem w' db' key = Data JNull"
  using assms
  by (simp add: set_mem_def put_prop_def reaches_setter_def Let_def has_mem_def has_prop_def
      get_mem_def fetch_mem_def get_prop_def or_null_def update_conv')

theorem has_get_disagree_on_falsy_witness:
  "\<not> truthy_val (JNum (Fin 0)) \<and> \<not> strict_eq (JNum (Fin 0)) JNull \<and>
   \<not> strict_eq (JNum (Fin 0)) JUndefined \<and> ''counter'' \<noteq> ''__proto__'' \<and>
   (\<exists>w1 db1 w2 db2.
      HelixiaDB_mem node_world ''database.json'' = (Inr (), w1, db1) \<and>
      set_mem w1 db1 ''counter'' (JNum (Fin 0)) = (Inr (), w2, db2) \<and>
      has_mem w2 db2 ''counter'' \<and> get_mem w2 db2 ''counter'' = Data JNull \<and>
      fetch_mem w2 db2 ''counter'' = Data JNull)"
proof -
  have h: "\<not> truthy_val (JNum (Fin 0))" "\<not> strict_eq (JNum (Fin 0)) JNull"
    "\<not> strict_eq (JNum (Fin 0)) JUndefined" "''counter'' \<noteq> ''__proto__''"
    by (simp_all add: strict_eq_def)
  obtain w1 db1 where c: "HelixiaDB_mem node_world ''database.json'' = (Inr (), w1, db1)"
    using constructor_mem_fresh by blast
  obtain r w2 db2 where s: "set_mem w1 db1 ''counter'' (JNum (Fin 0)) = (r, w2, db2)"
    by (cases "set_mem w1 db1 ''counter'' (JNum (Fin 0))") auto
  from has_get_disagree_on_falsy [OF h, of w1 db1] s c h show ?thesis by auto
qed

subsection \<open>The example store\<close>

lemma parse_doc1: "parse_props 0 doc1 [] = (data1, 3)"
  by (simp add: doc1_def data1_def)

lemma world1_fields:
  "files world1 ''database.json'' = Some (Document doc1)"
  "next_addr world1 = 0"
  "log world1 = []"
  "object_proto world1 = object_proto node_world"
  "array_proto world1 = array_proto node_world"
  by (simp_all add: world1_def node_world_def)

lemma world1_loaded_fields:
  "files world1_loaded = files world1"
  "next_addr world1_loaded = 3"
  "log world1_loaded = []"
  "object_proto world1_loaded = object_proto node_world"
  "array_proto world1_loaded = array_proto node_world"
  by (simp_all add: world1_loaded_def world1_fields)

lemma db1_fields:
  "filePath db1 = ''database.json''"
  "data db1 = data1"
  "data_proto db1 = DefaultProto"
  by (simp_all add: db1_def)

lemma constructor_mem_world1:
  "HelixiaDB_mem world1 ''database.json'' = (Inr (), world1_loaded, db1)"
  by (simp add: HelixiaDB_mem_def loadData_mem_def existsSync_def world1_fields parse_doc1
      world1_loaded_def db1_def)

lemma loadData_idx_world1: "loadData_idx world1 ''database.json'' = (data1, world1_loaded)"
  by (simp add: loadData_idx_def existsSync_def world1_fields parse_doc1 world1_loaded_def)


subsection \<open>Shape checks\<close>

lemma loadData_idx_files:
  "files (snd (loadData_idx w fp)) =
     (if existsSync w fp then files w else (files w)(fp \<mapsto> Document []))"
  by (simp add: loadData_idx_def saveData_idx_def writeFileSync_def console_error_def
      stringify_doc_def split: option.splits content.splits prod.splits)

lemma loadData_idx_writes:
  "writes (snd (loadData_idx u fp)) =
     (if existsSync u fp then writes u else writes u @ [(fp, Document [])])"
  by (simp add: loadData_idx_def saveData_idx_def writeFileSync_def console_error_def
      stringify_doc_def case_prod_beta split: option.splits content.splits)

lemma proto_get_not_array:
  assumes "pr = DefaultProto \<or> pr = NullProto"
  shows "\<not> isArray (proto_get w pr k)"
  using assms by (auto simp add: proto_get_def object_proto_get_def split: if_splits)

lemma stored_non_sequence_not_array:
  assumes "\<forall>a es. map_of ps key \<noteq> Some (JArr a es)"
    and "pr = DefaultProto \<or> pr = NullProto"
  shows "\<not> isArray (get_prop w ps pr key)"
proof (cases "map_of ps key")
  case None
  with assms(2) show ?thesis by (simp add: get_prop_def proto_get_not_array)
next
  case (Some v)
  with assms(1) have "\<not> isArray (Data v)" by (cases v) auto
  with Some show ?thesis by (simp add: get_prop_def)
qed

lemma delete_stored_non_sequence_mem:
  assumes "\<forall>a es. map_of (data db) key \<noteq> Some (JArr a es)"
    and "data_proto db = DefaultProto \<or> data_proto db = NullProto"
  shows "delete_mem w db key v = (Inl ARRAY_NOT_FOUND, w, db)"
  using stored_non_sequence_not_array [OF assms, of w]
  by (simp add: delete_mem_def Let_def)

lemma delete_stored_non_sequence_idx:
  assumes "\<forall>a es. map_of (fst (loadData_idx u fp)) key \<noteq> Some (JArr a es)"
  shows "delete_idx u fp key v = console_error (snd (loadData_idx u fp)) (message ARRAY_NOT_FOUND)"
    and "files (delete_idx u fp key v) =
      (if existsSync u fp then files u else (files u)(fp \<mapsto> Document []))"
    and "writes (delete_idx u fp key v) =
      (if existsSync u fp then writes u else writes u @ [(fp, Document [])])"
proof -
  from assms have "\<not> isArray (get_prop (snd (loadData_idx u fp)) (fst (loadData_idx u fp))
      DefaultProto key)"
    by (rule stored_non_sequence_not_array) simp
  then show d: "delete_idx u fp key v =
      console_error (snd (loadData_idx u fp)) (message ARRAY_NOT_FOUND)"
    by (simp add: delete_idx_def Let_def case_prod_beta)
  show "files (delete_idx u fp key v) =
      (if existsSync u fp then files u else (files u)(fp \<mapsto> Document []))"
    unfolding d by (simp add: console_error_def loadData_idx_files del: message.simps)
  show "writes (delete_idx u fp key v) =
      (if existsSync u fp then writes u else writes u @ [(fp, Document [])])"
    unfolding d by (simp add: console_error_def loadData_idx_writes del: message.simps)
qed

text \<open>
  Claim C4 at a failing input.  On a store made for a new file,
  \<^verbatim>\<open>set('__proto__', {a: [1, 2]})\<close> succeeds and stores nothing: it replaces the
  prototype of the document.  The document then has no value under \<^verbatim>\<open>a\<close>, yet
  \<^verbatim>\<open>delete('a', 1)\<close> does not fail with \<^verbatim>\<open>ARRAY_NOT_FOUND\<close>: the check reads
  \<^verbatim>\<open>data['a']\<close> through the prototype, finds the array, and the call adds the entry
  \<^verbatim>\<open>a: [2]\<close> to the document and writes it to the file.
\<close>

theorem delete_reads_through_prototype:
  "(case HelixiaDB_mem (node_world\<lparr>next_addr := 7\<rparr>) ''database.json'' of
      (r0, w0, d0) \<Rightarrow>
        r0 = Inr () \<and> data d0 = [] \<and>
        (case set_mem w0 d0 ''__proto__'' (JObj 5 [(''a'', JArr 6 [JNum (Fin 1), JNum (Fin 2)])]) of
           (r1, w1, d1) \<Rightarrow>
             r1 = Inr () \<and> data d1 = [] \<and> map_of (data d1) ''a'' = None \<and>
             files w1 ''database.json'' = Some (Document []) \<and>
             (case delete_mem w1 d1 ''a'' (JNum (Fin 1)) of
                (r, w', d') \<Rightarrow>
                  r = Inr () \<and> data d' = [(''a'', JArr 7 [JNum (Fin 2)])] \<and>
                  files w' ''database.json'' =
                    Some (Document [(''a'', Json_arr [Json_num 2])]))))"
proof -
  let ?wa = "node_world\<lparr>next_addr := 7\<rparr>"
  let ?p = "ObjProto 5 [(''a'', JArr 6 [JNum (Fin 1), JNum (Fin 2)])]"
  let ?wb = "writeFileSync ?wa ''database.json'' (Document [])"
  let ?da = "\<lparr>filePath = ''database.json'', data = [], data_proto = DefaultProto\<rparr>"
  let ?wc = "writeFileSync ?wb ''database.json'' (Document [])"
  let ?dc = "\<lparr>filePath = ''database.json'', data = [], data_proto = ?p\<rparr>"
  have c: "HelixiaDB_mem ?wa ''database.json'' = (Inr (), ?wb, ?da)"
    by (simp add: HelixiaDB_mem_def loadData_mem_def existsSync_def node_world_def
        saveData_mem_def stringify_doc_def)
  have s: "set_mem ?wb ?da ''__proto__'' (JObj 5 [(''a'', JArr 6 [JNum (Fin 1), JNum (Fin 2)])])
      = (Inr (), ?wc, ?dc)"
    by (simp add: set_mem_def strict_eq_def put_prop_def reaches_setter_def set_proto_def
        saveData_mem_def stringify_doc_def writeFileSync_def node_world_def)
  have g: "get_prop ?wc [] ?p ''a'' = Data (JArr 6 [JNum (Fin 1), JNum (Fin 2)])"
    by (simp add: get_prop_def proto_get_def)
  have n: "next_addr ?wc = 7"
    by (simp add: writeFileSync_def)
  have f: "filter_ne [JNum (Fin 1), JNum (Fin 2)] (JNum (Fin 1)) = [JNum (Fin 2)]"
    by (simp add: filter_ne_def strict_eq_def num_eq_def)
  have d: "delete_mem ?wc ?dc ''a'' (JNum (Fin 1)) =
      (Inr (),
       saveData_mem (?wc\<lparr>next_addr := 8\<rparr>) (?dc\<lparr>data := [(''a'', JArr 7 [JNum (Fin 2)])]\<rparr>),
       ?dc\<lparr>data := [(''a'', JArr 7 [JNum (Fin 2)])]\<rparr>)"
    by (simp add: delete_mem_def g Let_def put_prop_def reaches_setter_def n f)
  show ?thesis
    unfolding c prod.case s d
    by (simp add: saveData_mem_def writeFileSync_def stringify_doc_def or_json_null_def)
qed

theorem delete_reads_through_prototype_witness:
  "\<exists>w0 d0 w1 d1 w' d'.
      HelixiaDB_mem (node_world\<lparr>next_addr := 7\<rparr>) ''database.json'' = (Inr (), w0, d0) \<and>
      set_mem w0 d0 ''__proto__'' (JObj 5 [(''a'', JArr 6 [JNum (Fin 1), JNum (Fin 2)])]) =
        (Inr (), w1, d1) \<and>
      map_of (data d1) ''a'' = None \<and>
      delete_mem w1 d1 ''a'' (JNum (Fin 1)) = (Inr (), w', d') \<and>
      fst (delete_mem w1 d1 ''a'' (JNum (Fin 1))) \<noteq> Inl ARRAY_NOT_FOUND \<and>
      data d' \<noteq> data d1"
  using delete_reads_through_prototype by (auto split: prod.splits)

subsection \<open>Removing the file\<close>

lemma get_prop_files [simp]: "get_prop (w\<lparr>files := f\<rparr>) ps pr k = get_prop w ps pr k"
  by (simp add: get_prop_def proto_get_def object_proto_get_def split: proto.splits option.splits)

lemma has_prop_files [simp]: "has_prop (w\<lparr>files := f\<rparr>) ps pr k = has_prop w ps pr k"
  by (simp add: has_prop_def proto_has_def split: proto.splits)

lemma member_get_files [simp]: "member_get (w\<lparr>files := f\<rparr>) x s = member_get w x s"
  by (simp add: member_get_def array_get_def object_proto_get_def
      split: looked.splits jsval.splits builtin.splits option.splits)

text \<open>
  Claim C8, amended.  In the store that keeps the document in memory, \<^verbatim>\<open>destroy()\<close>
  on an existing file removes it and leaves the instance as it was, so \<^verbatim>\<open>all\<close>,
  \<^verbatim>\<open>get\<close>, \<^verbatim>\<open>fetch\<close>, \<^verbatim>\<open>has\<close> and \<^verbatim>\<open>fetchObject\<close> answer as before; without a file
  it throws and changes nothing.  The store that reloads the file has no document in
  memory: after \<^verbatim>\<open>destroy()\<close> has removed the file, \<^verbatim>\<open>all()\<close> returns the empty document
  and writes the file anew.
\<close>

theorem destroy_frame:
  "(existsSync w (filePath db) \<longrightarrow>
      (case destroy_mem w db of
         (r, w', db') \<Rightarrow>
           r = Inr () \<and> files w' = (files w)(filePath db := None) \<and> db' = db \<and>
           all_mem db' = all_mem db \<and>
           (\<forall>key. get_mem w' db' key = get_mem w db key \<and>
                  fetch_mem w' db' key = fetch_mem w db key \<and>
                  has_mem w' db' key = has_mem w db key) \<and>
           (\<forall>key subKey. fetchObject_mem w' db' key subKey = fetchObject_mem w db key subKey))) \<and>
   (\<not> existsSync w2 (filePath db2) \<longrightarrow>
      destroy_mem w2 db2 = (Inl (ENOENT (filePath db2)), w2, db2)) \<and>
   (existsSync u fp \<longrightarrow>
      files (destroy_idx u fp) = (files u)(fp := None) \<and>
      fst (all_idx (destroy_idx u fp) fp) = [] \<and>
      files (snd (all_idx (destroy_idx u fp) fp)) = (files u)(fp \<mapsto> Document []))"
  by (auto simp add: destroy_mem_def unlinkSync_def get_mem_def fetch_mem_def has_mem_def
      fetchObject_mem_def Let_def destroy_idx_def all_idx_def loadData_idx_def existsSync_def
      saveData_idx_def writeFileSync_def stringify_doc_def)

theorem destroy_frame_witness:
  "existsSync world1_loaded (filePath db1) \<and>
   (\<exists>w'. destroy_mem world1_loaded db1 = (Inr (), w', db1) \<and>
      files w' ''database.json'' = None \<and>
      get_mem w' db1 ''name'' = Data (JStr ''x'') \<and>
      get_mem world1_loaded db1 ''name'' = Data (JStr ''x'') \<and>
      has_mem w' db1 ''name'') \<and>
   \<not> existsSync node_world (filePath db1) \<and>
   destroy_mem node_world db1 = (Inl (ENOENT ''database.json''), node_world, db1) \<and>
   existsSync world1 ''database.json'' \<and>
   files (destroy_idx world1 ''database.json'') ''database.json'' = None \<and>
   fst (all_idx (destroy_idx world1 ''database.json'') ''database.json'') = []"
proof -
  have a: "existsSync world1_loaded (filePath db1)"
    by (simp add: existsSync_def world1_loaded_fields world1_fields db1_fields)
  have b: "\<not> existsSync node_world (filePath db1)"
    by (simp add: existsSync_def node_world_def)
  have c: "existsSync world1 ''database.json''"
    by (simp add: existsSync_def world1_fields)
  have g: "get_mem world1_loaded db1 ''name'' = Data (JStr ''x'')"
    "has_mem world1_loaded db1 ''name''"
    by (simp_all add: get_mem_def has_mem_def has_prop_def get_prop_def or_null_def
        db1_fields data1_def)
  obtain r w' db' where d: "destroy_mem world1_loaded db1 = (r, w', db')"
    by (cases "destroy_mem world1_loaded db1") auto
  from destroy_frame [of world1_loaded db1 node_world db1 world1 "''database.json''"] a b c d g
  show ?thesis by (auto simp add: db1_fields)
qed

text \<open>
  Claim C8 as stated fails on the store that reloads the file: a read after
  \<^verbatim>\<open>destroy()\<close> no longer sees what it saw before.
\<close>

theorem destroy_then_get_idx_counterexample:
  "fst (get_idx world1 ''database.json'' ''name'') = Data (JStr ''x'') \<and>
   fst (get_idx (destroy_idx world1 ''database.json'') ''database.json'' ''name'') = Data JNull"
proof -
  have e: "existsSync world1 ''database.json''"
    by (simp add: existsSync_def world1_fields)
  have "fst (get_idx world1 ''database.json'' ''name'') = Data (JStr ''x'')"
    by (simp add: get_idx_def loadData_idx_world1 get_prop_def data1_def or_null_def)
  moreover have "fst (get_idx (destroy_idx world1 ''database.json'') ''database.json'' ''name'')
      = Data JNull"
    using e
    by (simp add: get_idx_def destroy_idx_def unlinkSync_def loadData_idx_def existsSync_def
        get_prop_def proto_get_def object_proto_get_def or_null_def world1_fields
        saveData_idx_def writeFileSync_def node_world_def)
  ultimately show ?thesis by simp
qed

subsection \<open>Deleting inside a stored object\<close>

lemma map_of_map_prod_id:
  "map_of (map (map_prod id f) ps) k = map_option f (map_of ps k)"
  by (induction ps) auto

lemma map_fst_delete_map_prod:
  "map fst (AList.delete k (map (map_prod id f) ps)) = filter (\<lambda>s. s \<noteq> k) (map fst ps)"
  by (induction ps) auto

lemma map_of_delete_map_prod:
  "map_of (AList.delete k (map (map_prod id f) ps)) s =
     (if s = k then None else map_option f (map_of ps s))"
  by (simp add: delete_conv' map_of_map_prod_id)

lemma delete_cell_absent: "\<not> occurs a v \<Longrightarrow> delete_cell a s v = v"
proof (induction v)
  case (JArr b es)
  then have "map (delete_cell a s) es = es"
    by (intro map_idI) auto
  with JArr.prems show ?case by simp
next
  case (JObj b ps)
  have "map (map_prod id (delete_cell a s)) ps = ps"
  proof (rule map_idI)
    fix p assume p: "p \<in> set ps"
    obtain k v where kv: "p = (k, v)" by (cases p)
    from p JObj.prems have "\<not> occurs a v" by (auto simp add: kv)
    with JObj.IH [of p v] p show "map_prod id (delete_cell a s) p = p"
      by (simp add: kv)
  qed
  with JObj.prems show ?case by simp
qed simp_all

lemma delete_cell_props_absent:
  "\<forall>p\<in>set ps. \<not> occurs a (snd p) \<Longrightarrow> delete_cell_props a s ps = ps"
  unfolding delete_cell_props_def
  by (rule map_idI) (auto simp add: delete_cell_absent)

lemma map_fst_delete_cell_props: "map fst (delete_cell_props a s ps) = map fst ps"
  by (simp add: delete_cell_props_def comp_def)

lemma proto_get_absent: "\<not> proto_has w pr k \<Longrightarrow> proto_get w pr k = Data JUndefined"
  by (auto simp add: proto_has_def proto_get_def object_proto_get_def split: proto.splits)

lemma proto_get_default:
  "k \<noteq> ''__proto__'' \<Longrightarrow> typeof (proto_get w DefaultProto k) \<noteq> ''object''"
  by (simp add: proto_get_def object_proto_get_def)

lemma shape_check_fails:
  assumes "typeof (get_prop w (data db) (data_proto db) key) \<noteq> ''object'' \<or>
     get_prop w (data db) (data_proto db) key = Data JNull"
  shows "deleteKey_mem w db key subKey = (Inl OBJECT_NOT_FOUND, w, db)"
    and "fetchObject_mem w db key subKey = Inl OBJECT_NOT_FOUND"
  using assms by (auto simp add: deleteKey_mem_def fetchObject_mem_def Let_def)

lemma deleteKey_mem_own_object:
  assumes "map_of (data d) key = Some (JObj a ps)"
  shows "deleteKey_mem w d key subKey =
     (Inr (), saveData_mem w (delete_in d a subKey), delete_in d a subKey)"
  using assms by (simp add: deleteKey_mem_def Let_def get_prop_def)

text \<open>
  Claim C3, amended.  \<^verbatim>\<open>deleteKey\<close> and \<^verbatim>\<open>fetchObject\<close> throw
  \<^verbatim>\<open>OBJECT_NOT_FOUND\<close> and change nothing when the document holds a primitive
  (a scalar, \<^verbatim>\<open>null\<close>, \<^verbatim>\<open>undefined\<close>) under the key, and when it holds nothing under
  the key and the key is not found on the prototype chain of the document either, or
  the prototype is the default one and the key is not \<^verbatim>\<open>__proto__\<close>.  When the
  document holds an array under the key, neither throws \<^verbatim>\<open>OBJECT_NOT_FOUND\<close>.  When
  it holds an object under the key, \<^verbatim>\<open>deleteKey\<close> succeeds and deletes \<^verbatim>\<open>subKey\<close> in
  that object: the key then holds the same object without \<^verbatim>\<open>subKey\<close> and with its
  other properties in place, the document has the same keys in the same order, every
  entry that does not hold the cell of that object is as it was, and the only thing that
  happens to the world is the one write of the new document.
\<close>

theorem deleteKey_fetchObject_shape:
  "(map_of (data db) key = Some v \<and> primitive v \<longrightarrow>
      deleteKey_mem w db key subKey = (Inl OBJECT_NOT_FOUND, w, db) \<and>
      fetchObject_mem w db key subKey = Inl OBJECT_NOT_FOUND) \<and>
   (map_of (data d0) key0 = None \<and>
    (\<not> proto_has w0 (data_proto d0) key0 \<or>
     data_proto d0 = DefaultProto \<and> key0 \<noteq> ''__proto__'') \<longrightarrow>
      deleteKey_mem w0 d0 key0 subKey0 = (Inl OBJECT_NOT_FOUND, w0, d0) \<and>
      fetchObject_mem w0 d0 key0 subKey0 = Inl OBJECT_NOT_FOUND) \<and>
   (map_of (data d1) key1 = Some (JArr b es) \<longrightarrow>
      fst (deleteKey_mem w1 d1 key1 subKey1) \<noteq> Inl OBJECT_NOT_FOUND \<and>
      fetchObject_mem w1 d1 key1 subKey1 \<noteq> Inl OBJECT_NOT_FOUND) \<and>
   (map_of (data d2) key2 = Some (JObj a ps) \<longrightarrow>
      (case deleteKey_mem w2 d2 key2 subKey2 of
         (r, w', d') \<Rightarrow>
           r = Inr () \<and>
           (\<exists>ps'. map_of (data d') key2 = Some (JObj a ps') \<and>
              ps' = AList.delete subKey2 (delete_cell_props a subKey2 ps) \<and>
              map_of ps' subKey2 = None \<and>
              map fst ps' = filter (\<lambda>s. s \<noteq> subKey2) (map fst ps) \<and>
              (\<forall>s. s \<noteq> subKey2 \<longrightarrow>
                 map_of ps' s = map_option (delete_cell a subKey2) (map_of ps s)) \<and>
              ((\<forall>p\<in>set ps. \<not> occurs a (snd p)) \<longrightarrow> ps' = AList.delete subKey2 ps)) \<and>
           map fst (data d') = map fst (data d2) \<and>
           (\<forall>k u. map_of (data d2) k = Some u \<and> \<not> occurs a u \<longrightarrow>
              map_of (data d') k = Some u) \<and>
           (\<forall>k. map_of (data d2) k = None \<longrightarrow> map_of (data d') k = None) \<and>
           filePath d' = filePath d2 \<and>
           data_proto d' = delete_cell_proto a subKey2 (data_proto d2) \<and>
           w' = writeFileSync w2 (filePath d2) (Document (stringify_doc (data d')))))"
proof (intro conjI impI)
  assume h: "map_of (data db) key = Some v \<and> primitive v"
  then have "typeof (get_prop w (data db) (data_proto db) key) \<noteq> ''object'' \<or>
     get_prop w (data db) (data_proto db) key = Data JNull"
    by (cases v) (auto simp add: get_prop_def)
  then show "deleteKey_mem w db key subKey = (Inl OBJECT_NOT_FOUND, w, db)"
    and "fetchObject_mem w db key subKey = Inl OBJECT_NOT_FOUND"
    by (rule shape_check_fails)+
next
  assume h: "map_of (data d0) key0 = None \<and>
    (\<not> proto_has w0 (data_proto d0) key0 \<or>
     data_proto d0 = DefaultProto \<and> key0 \<noteq> ''__proto__'')"
  then have "typeof (proto_get w0 (data_proto d0) key0) \<noteq> ''object''"
    using proto_get_absent [of w0 "data_proto d0" key0] proto_get_default [of key0 w0]
    by auto
  with h have "typeof (get_prop w0 (data d0) (data_proto d0) key0) \<noteq> ''object'' \<or>
     get_prop w0 (data d0) (data_proto d0) key0 = Data JNull"
    by (simp add: get_prop_def)
  then show "deleteKey_mem w0 d0 key0 subKey0 = (Inl OBJECT_NOT_FOUND, w0, d0)"
    and "fetchObject_mem w0 d0 key0 subKey0 = Inl OBJECT_NOT_FOUND"
    by (rule shape_check_fails)+
next
  assume "map_of (data d1) key1 = Some (JArr b es)"
  then have x: "get_prop w1 (data d1) (data_proto d1) key1 = Data (JArr b es)"
    by (simp add: get_prop_def)
  show "fst (deleteKey_mem w1 d1 key1 subKey1) \<noteq> Inl OBJECT_NOT_FOUND"
    by (simp add: deleteKey_mem_def Let_def x delete_length_def)
  show "fetchObject_mem w1 d1 key1 subKey1 \<noteq> Inl OBJECT_NOT_FOUND"
    by (simp add: fetchObject_mem_def Let_def x)
next
  assume own: "map_of (data d2) key2 = Some (JObj a ps)"
  note dk = deleteKey_mem_own_object [OF own, of w2 subKey2]
  let ?ps = "AList.delete subKey2 (delete_cell_props a subKey2 ps)"
  have cell: "map_of (data (delete_in d2 a subKey2)) key2 = Some (JObj a ?ps)"
    by (simp add: delete_in_def delete_cell_props_def map_of_map_prod_id own)
  have frame: "map_of (data (delete_in d2 a subKey2)) k = Some u"
    if "map_of (data d2) k = Some u \<and> \<not> occurs a u" for k u
    using that
    by (simp add: delete_in_def delete_cell_props_def map_of_map_prod_id delete_cell_absent)
  have none: "map_of (data (delete_in d2 a subKey2)) k = None"
    if "map_of (data d2) k = None" for k
    using that by (simp add: delete_in_def delete_cell_props_def map_of_map_prod_id)
  have inner: "?ps = AList.delete subKey2 ps" if "\<forall>p\<in>set ps. \<not> occurs a (snd p)"
    using that by (simp add: delete_cell_props_absent)
  show "case deleteKey_mem w2 d2 key2 subKey2 of
         (r, w', d') \<Rightarrow>
           r = Inr () \<and>
           (\<exists>ps'. map_of (data d') key2 = Some (JObj a ps') \<and>
              ps' = AList.delete subKey2 (delete_cell_props a subKey2 ps) \<and>
              map_of ps' subKey2 = None \<and>
              map fst ps' = filter (\<lambda>s. s \<noteq> subKey2) (map fst ps) \<and>
              (\<forall>s. s \<noteq> subKey2 \<longrightarrow>
                 map_of ps' s = map_option (delete_cell a subKey2) (map_of ps s)) \<and>
              ((\<forall>p\<in>set ps. \<not> occurs a (snd p)) \<longrightarrow> ps' = AList.delete subKey2 ps)) \<and>
           map fst (data d') = map fst (data d2) \<and>
           (\<forall>k u. map_of (data d2) k = Some u \<and> \<not> occurs a u \<longrightarrow>
              map_of (data d') k = Some u) \<and>
           (\<forall>k. map_of (data d2) k = None \<longrightarrow> map_of (data d') k = None) \<and>
           filePath d' = filePath d2 \<and>
           data_proto d' = delete_cell_proto a subKey2 (data_proto d2) \<and>
           w' = writeFileSync w2 (filePath d2) (Document (stringify_doc (data d')))"
    unfolding dk prod.case
  proof (intro conjI exI allI impI)
    show "map_of (data (delete_in d2 a subKey2)) key2 = Some (JObj a ?ps)"
      by (rule cell)
    show "?ps = AList.delete subKey2 ps" if "\<forall>p\<in>set ps. \<not> occurs a (snd p)"
      using that by (rule inner)
    show "map_of (data (delete_in d2 a subKey2)) k = Some u"
      if "map_of (data d2) k = Some u \<and> \<not> occurs a u" for k u
      using that by (rule frame)
    show "map_of (data (delete_in d2 a subKey2)) k = None"
      if "map_of (data d2) k = None" for k
      using that by (rule none)
  qed (simp_all add: delete_cell_props_def map_fst_delete_map_prod map_of_delete_map_prod
      saveData_mem_def delete_in_def comp_def)
qed
theorem deleteKey_fetchObject_shape_witness:
  "map_of (data db1) ''name'' = Some (JStr ''x'') \<and> primitive (JStr ''x'') \<and>
   deleteKey_mem world1_loaded db1 ''name'' ''a'' = (Inl OBJECT_NOT_FOUND, world1_loaded, db1) \<and>
   fetchObject_mem world1_loaded db1 ''name'' ''a'' = Inl OBJECT_NOT_FOUND \<and>
   map_of (data db1) ''missing'' = None \<and>
   \<not> proto_has world1_loaded (data_proto db1) ''missing'' \<and>
   deleteKey_mem world1_loaded db1 ''missing'' ''a'' =
     (Inl OBJECT_NOT_FOUND, world1_loaded, db1) \<and>
   fetchObject_mem world1_loaded db1 ''missing'' ''a'' = Inl OBJECT_NOT_FOUND \<and>
   map_of (data db1) ''list'' =
     Some (JArr 0 [JNum (Fin 1), JObj 1 [(''a'', JNum (Fin 1))], JNum (Fin 2), JNum (Fin 1)]) \<and>
   fst (deleteKey_mem world1_loaded db1 ''list'' ''0'') \<noteq> Inl OBJECT_NOT_FOUND \<and>
   map_of (data db1) ''obj'' = Some (JObj 2 [(''a'', JNum (Fin 1)), (''b'', JNum (Fin 2))]) \<and>
   (\<exists>w' d'. deleteKey_mem world1_loaded db1 ''obj'' ''a'' = (Inr (), w', d') \<and>
      map_of (data d') ''obj'' = Some (JObj 2 [(''b'', JNum (Fin 2))]) \<and>
      map_of (data d') ''name'' = Some (JStr ''x'') \<and>
      map_of (data d') ''counter'' = Some (JNum (Fin 10)) \<and>
      map fst (data d') = [''name'', ''counter'', ''list'', ''obj''] \<and>
      writes w' = [(''database.json'', Document (stringify_doc (data d')))])"
proof -
  let ?es = "[JNum (Fin 1), JObj 1 [(''a'', JNum (Fin 1))], JNum (Fin 2), JNum (Fin 1)]"
  let ?ps = "[(''a'', JNum (Fin 1)), (''b'', JNum (Fin 2))]"
  have m: "map_of (data db1) ''name'' = Some (JStr ''x'')"
    "map_of (data db1) ''counter'' = Some (JNum (Fin 10))"
    "map_of (data db1) ''missing'' = None"
    "map_of (data db1) ''list'' = Some (JArr 0 ?es)"
    "map_of (data db1) ''obj'' = Some (JObj 2 ?ps)"
    "map fst (data db1) = [''name'', ''counter'', ''list'', ''obj'']"
    by (simp_all add: db1_fields data1_def)
  have p: "primitive (JStr ''x'')" by simp
  have n: "\<not> proto_has world1_loaded (data_proto db1) ''missing''"
    by (simp add: proto_has_def db1_fields world1_loaded_fields node_world_def)
  have o: "\<forall>p\<in>set ?ps. \<not> occurs 2 (snd p)"
    "\<not> occurs 2 (JStr ''x'')" "\<not> occurs 2 (JNum (Fin 10))"
    by simp_all
  have wr: "writes world1_loaded = []"
    by (simp add: world1_loaded_def world1_def node_world_def)
  obtain r w' d' where d: "deleteKey_mem world1_loaded db1 ''obj'' ''a'' = (r, w', d')"
    by (cases "deleteKey_mem world1_loaded db1 ''obj'' ''a''") auto
  note t = deleteKey_fetchObject_shape
    [where db = db1 and key = "''name''" and v = "JStr ''x''" and w = world1_loaded
       and subKey = "''a''" and ?d0.0 = db1 and ?key0.0 = "''missing''"
       and ?w0.0 = world1_loaded and ?subKey0.0 = "''a''"
       and ?d1.0 = db1 and ?key1.0 = "''list''" and b = 0 and es = ?es
       and ?w1.0 = world1_loaded and ?subKey1.0 = "''0''"
       and ?d2.0 = db1 and ?key2.0 = "''obj''" and a = 2 and ps = ?ps
       and ?w2.0 = world1_loaded and ?subKey2.0 = "''a''"]
  from t m p have c1: "deleteKey_mem world1_loaded db1 ''name'' ''a'' =
      (Inl OBJECT_NOT_FOUND, world1_loaded, db1)"
    "fetchObject_mem world1_loaded db1 ''name'' ''a'' = Inl OBJECT_NOT_FOUND"
    by blast+
  from t m n have c2: "deleteKey_mem world1_loaded db1 ''missing'' ''a'' =
      (Inl OBJECT_NOT_FOUND, world1_loaded, db1)"
    "fetchObject_mem world1_loaded db1 ''missing'' ''a'' = Inl OBJECT_NOT_FOUND"
    by blast+
  from t m have c3: "fst (deleteKey_mem world1_loaded db1 ''list'' ''0'') \<noteq> Inl OBJECT_NOT_FOUND"
    by blast
  from t m(5) d have r: "r = Inr ()"
    and e: "\<exists>ps'. map_of (data d') ''obj'' = Some (JObj 2 ps') \<and>
        ((\<forall>p\<in>set ?ps. \<not> occurs 2 (snd p)) \<longrightarrow> ps' = AList.delete ''a'' ?ps)"
    and k: "map fst (data d') = map fst (data db1)"
    and fr: "\<And>k u. map_of (data db1) k = Some u \<and> \<not> occurs 2 u \<Longrightarrow> map_of (data d') k = Some u"
    and w: "w' = writeFileSync world1_loaded (filePath db1) (Document (stringify_doc (data d')))"
    by auto
  from e o(1) have c4: "map_of (data d') ''obj'' = Some (JObj 2 [(''b'', JNum (Fin 2))])"
    by auto
  from fr [of "''name''" "JStr ''x''"] m o have c5: "map_of (data d') ''name'' = Some (JStr ''x'')"
    by simp
  from fr [of "''counter''" "JNum (Fin 10)"] m o
  have c6: "map_of (data d') ''counter'' = Some (JNum (Fin 10))"
    by simp
  from w have c7: "writes w' = [(''database.json'', Document (stringify_doc (data d')))]"
    by (simp add: writeFileSync_def wr db1_fields)
  from k m have c8: "map fst (data d') = [''name'', ''counter'', ''list'', ''obj'']"
    by simp
  from d r c4 c5 c6 c8 c7
  have ex: "\<exists>w' d'. deleteKey_mem world1_loaded db1 ''obj'' ''a'' = (Inr (), w', d') \<and>
      map_of (data d') ''obj'' = Some (JObj 2 [(''b'', JNum (Fin 2))]) \<and>
      map_of (data d') ''name'' = Some (JStr ''x'') \<and>
      map_of (data d') ''counter'' = Some (JNum (Fin 10)) \<and>
      map fst (data d') = [''name'', ''counter'', ''list'', ''obj''] \<and>
      writes w' = [(''database.json'', Document (stringify_doc (data d')))]"
    by (intro exI [of _ w'] exI [of _ d'] conjI) simp_all
  show ?thesis
    by (intro conjI) (fact m p n c1 c2 c3 ex)+
qed

text \<open>
  Claim C3 as stated fails where the key holds an array: neither operation throws
  \<^verbatim>\<open>OBJECT_NOT_FOUND\<close>.
\<close>

theorem deleteKey_on_array_counterexample:
  "isArray (get_prop world1_loaded (data db1) (data_proto db1) ''list'') \<and>
   fst (deleteKey_mem world1_loaded db1 ''list'' ''0'') = Inr () \<and>
   fetchObject_mem world1_loaded db1 ''list'' ''0'' = Inr (Data (JNum (Fin 1)))"
proof -
  have x: "get_prop world1_loaded (data db1) (data_proto db1) ''list'' =
      Data (JArr 0 [JNum (Fin 1), JObj 1 [(''a'', JNum (Fin 1))], JNum (Fin 2), JNum (Fin 1)])"
    by (simp add: get_prop_def db1_fields data1_def)
  have i: "array_index ''0'' = Some 0"
    by (simp add: array_index_def)
  show ?thesis
    by (simp add: x deleteKey_mem_def fetchObject_mem_def Let_def member_get_def array_get_def
        array_own_def i or_null_def)
qed

text \<open>
  A key that the document does not hold can still pass the shape check: on a store made
  for a new file \<^verbatim>\<open>data['__proto__']\<close> reads the object prototype of the runtime, and
  \<^verbatim>\<open>deleteKey('__proto__', 'toString')\<close> deletes \<^verbatim>\<open>toString\<close> from it.
\<close>

lemma deleteKey_inherited_proto:
  "(case HelixiaDB_mem node_world ''database.json'' of
      (r0, w0, d0) \<Rightarrow>
        r0 = Inr () \<and> map_of (data d0) ''__proto__'' = None \<and>
        ''toString'' \<in> set (object_proto w0) \<and>
        (case deleteKey_mem w0 d0 ''__proto__'' ''toString'' of
           (r, w', d') \<Rightarrow> r = Inr () \<and> ''toString'' \<notin> set (object_proto w')))"
  unfolding constructor_mem_fresh prod.case
  by (simp add: deleteKey_mem_def get_prop_def proto_get_def object_proto_get_def Let_def
      saveData_mem_def writeFileSync_def node_world_def)

subsection \<open>Arithmetic on a stored number\<close>

lemma get_prop_update_same: "get_prop w (AList.update k v ps) pr k = Data v"
  by (simp add: get_prop_def update_conv')

lemma counter_world1:
  "get_prop world1_loaded (data db1) (data_proto db1) ''counter'' = Data (JNum (Fin 10))"
  by (simp add: get_prop_def db1_fields data1_def)

text \<open>
  Claim C2 at a failing input.  On the document \<^verbatim>\<open>{counter: 10, ...}\<close>, the store that
  keeps the document in memory answers \<^verbatim>\<open>math('counter', '/', 0)\<close> with \<^verbatim>\<open>Infinity\<close>,
  stores it under the key and writes it to the file as \<^verbatim>\<open>null\<close>.  The store that
  reloads the file returns \<^verbatim>\<open>null\<close> and leaves the file as it was; the line it logs is
  that of the reference error raised by the unbound name \<^verbatim>\<open>DatabaseError\<close>.
\<close>

theorem math_divide_by_zero:
  "(case math_mem world1_loaded db1 ''counter'' ''/'' (Fin 0) of
      (r, w', db') \<Rightarrow>
        r = Inr (Data (JNum PosInfinity)) \<and>
        map_of (data db') ''counter'' = Some (JNum PosInfinity) \<and>
        (\<exists>kjs. files w' ''database.json'' = Some (Document kjs) \<and>
           map_of kjs ''counter'' = Some Json_null)) \<and>
   (case math_idx world1 ''database.json'' ''counter'' ''/'' (Fin 0) of
      (r, u') \<Rightarrow>
        r = Data JNull \<and> files u' = files world1 \<and>
        log u' = [''DatabaseError is not defined''])"
proof -
  have m: "math_mem world1_loaded db1 ''counter'' ''/'' (Fin 0) =
      (Inr (Data (JNum PosInfinity)),
       saveData_mem world1_loaded (db1\<lparr>data := AList.update ''counter'' (JNum PosInfinity) data1\<rparr>),
       db1\<lparr>data := AList.update ''counter'' (JNum PosInfinity) data1\<rparr>)"
    by (simp add: math_mem_def counter_world1 Let_def put_prop_def reaches_setter_def
        apply_operator_def num_div_def infinity_def num_sign_def get_prop_update_same)
      (simp add: db1_fields)
  have u: "AList.update ''counter'' (JNum PosInfinity) data1 =
     [(''name'', JStr ''x''),
      (''counter'', JNum PosInfinity),
      (''list'', JArr 0 [JNum (Fin 1), JObj 1 [(''a'', JNum (Fin 1))], JNum (Fin 2), JNum (Fin 1)]),
      (''obj'', JObj 2 [(''a'', JNum (Fin 1)), (''b'', JNum (Fin 2))])]"
    by (simp add: data1_def)
  have i: "math_idx world1 ''database.json'' ''counter'' ''/'' (Fin 0) =
      (Data JNull, console_error world1_loaded ''DatabaseError is not defined'')"
    by (simp add: math_idx_def loadData_idx_world1 Let_def
        counter_world1 [unfolded db1_fields] num_eq_def new_DatabaseError_def)
  show ?thesis
    unfolding m i prod.case
    by (simp add: u saveData_mem_def writeFileSync_def db1_fields stringify_doc_def
        console_error_def world1_loaded_fields or_json_null_def)
qed

theorem math_divide_by_zero_witness:
  "fst (math_mem world1_loaded db1 ''counter'' ''/'' (Fin 0)) \<noteq> Inl (new_DatabaseError ''Division by zero is not allowed.'') \<and>
   get_prop world1_loaded (data db1) (data_proto db1) ''counter'' = Data (JNum (Fin 10)) \<and>
   (\<exists>w' db'. snd (math_mem world1_loaded db1 ''counter'' ''/'' (Fin 0)) = (w', db') \<and>
      get_prop w' (data db') (data_proto db') ''counter'' \<noteq> Data (JNum (Fin 10)))"
  using math_divide_by_zero counter_world1
  by (auto simp add: get_prop_def split: prod.splits)

subsection \<open>Presence after writing and removing\<close>

lemma has_after_set_mem:
  assumes "\<not> strict_eq v JNull" and "\<not> strict_eq v JUndefined"
  shows "case set_mem w db key v of (r, w', db') \<Rightarrow> r = Inr () \<and> has_mem w' db' key"
  using assms
  by (auto simp add: set_mem_def put_prop_def reaches_setter_def Let_def has_mem_def
      has_prop_def proto_has_def saveData_mem_def writeFileSync_def set_proto_def update_conv'
      strict_eq_def split: proto.splits jsval.splits)

lemma has_after_remove_mem:
  assumes "\<not> proto_has w (data_proto db) key"
  shows "case remove_mem w db key of (r, w', db') \<Rightarrow> r = Inr () \<and> \<not> has_mem w' db' key"
  using assms
  by (simp add: remove_mem_def Let_def has_mem_def has_prop_def proto_has_def delete_conv'
      saveData_mem_def writeFileSync_def split: proto.splits)

text \<open>
  Claim C7 at a failing input.  On a store made for a new file, \<^verbatim>\<open>remove('toString')\<close>
  succeeds and \<^verbatim>\<open>has('toString')\<close> is still true: \<^verbatim>\<open>key in data\<close> also finds what
  the document inherits from the runtime's object prototype.
\<close>

theorem has_after_remove_inherited:
  "(case HelixiaDB_mem node_world ''database.json'' of
      (r0, w0, db0) \<Rightarrow>
        r0 = Inr () \<and>
        (case remove_mem w0 db0 ''toString'' of
           (r, w', db') \<Rightarrow> r = Inr () \<and> data db' = [] \<and> has_mem w' db' ''toString''))"
  unfolding constructor_mem_fresh prod.case
  by (simp add: remove_mem_def Let_def has_mem_def has_prop_def
      proto_has_def saveData_mem_def writeFileSync_def node_world_def)

theorem has_after_remove_inherited_witness:
  "\<exists>w0 db0 w' db'.
      HelixiaDB_mem node_world ''database.json'' = (Inr (), w0, db0) \<and>
      remove_mem w0 db0 ''toString'' = (Inr (), w', db') \<and>
      map_of (data db') ''toString'' = None \<and> has_mem w' db' ''toString''"
  using has_after_remove_inherited by (auto split: prod.splits)

subsection \<open>Writing a value and reading it back\<close>

lemma strict_eq_null: "strict_eq v JNull \<longleftrightarrow> v = JNull"
  by (cases v) (auto simp add: strict_eq_def)

lemma strict_eq_undefined: "strict_eq v JUndefined \<longleftrightarrow> v = JUndefined \<or> v = JHole"
  by (cases v) (auto simp add: strict_eq_def)

lemma get_after_set_mem:
  assumes "truthy_val v" and "\<not> reaches_setter w (data db) (data_proto db) key"
  shows "case set_mem w db key v of
           (r, w', db') \<Rightarrow> r = Inr () \<and> get_mem w' db' key = Data v"
  using assms
  by (auto simp add: set_mem_def put_prop_def Let_def get_mem_def get_prop_update_same
      or_null_def strict_eq_null strict_eq_undefined)

text \<open>
  Claim C1 at a failing input.  On a store made for a new file, \<^verbatim>\<open>set('counter', 0)\<close>
  succeeds and \<^verbatim>\<open>get('counter')\<close> then returns \<^verbatim>\<open>null\<close>, in both stores: \<^verbatim>\<open>get\<close>
  answers \<^verbatim>\<open>data[key] || null\<close>, which turns every falsy value into \<^verbatim>\<open>null\<close>.
\<close>

theorem set_then_get_zero:
  "(case HelixiaDB_mem node_world ''database.json'' of
      (r0, w0, db0) \<Rightarrow>
        r0 = Inr () \<and>
        (case set_mem w0 db0 ''counter'' (JNum (Fin 0)) of
           (r, w', db') \<Rightarrow>
             r = Inr () \<and> map_of (data db') ''counter'' = Some (JNum (Fin 0)) \<and>
             get_mem w' db' ''counter'' = Data JNull)) \<and>
   fst (get_idx (set_idx node_world ''database.json'' ''counter'' (JNum (Fin 0)))
          ''database.json'' ''counter'') = Data JNull"
proof -
  have s: "set_idx node_world ''database.json'' ''counter'' (JNum (Fin 0)) =
      writeFileSync (writeFileSync node_world ''database.json'' (Document []))
        ''database.json'' (Document [(''counter'', Json_num 0)])"
    by (simp add: set_idx_def strict_eq_def loadData_idx_def existsSync_def put_prop_def
        reaches_setter_def saveData_idx_def writeFileSync_def stringify_doc_def node_world_def)
  have g: "fst (get_idx (writeFileSync (writeFileSync node_world ''database.json'' (Document []))
        ''database.json'' (Document [(''counter'', Json_num 0)])) ''database.json'' ''counter'')
      = Data JNull"
    by (simp add: get_idx_def loadData_idx_def existsSync_def get_prop_def or_null_def
        writeFileSync_def node_world_def)
  show ?thesis
    unfolding constructor_mem_fresh prod.case s g
    by (simp add: set_mem_def strict_eq_def put_prop_def reaches_setter_def Let_def
        get_mem_def get_prop_def or_null_def)
qed

theorem set_then_get_zero_witness:
  "\<not> deep_equal JNull (JNum (Fin 0)) \<and>
   (\<exists>w0 db0 w' db'.
      HelixiaDB_mem node_world ''database.json'' = (Inr (), w0, db0) \<and>
      set_mem w0 db0 ''counter'' (JNum (Fin 0)) = (Inr (), w', db') \<and>
      get_mem w' db' ''counter'' = Data JNull)"
  using set_then_get_zero by (auto simp add: deep_equal_def split: prod.splits)

subsection \<open>The loop of deleteEach\<close>

lemma deleteEach_step_mem_idx:
  "deleteEach_step_mem value key (w, db) =
     (case deleteEach_step_idx value key (w, data db, data_proto db) of
        (w', d', pr') \<Rightarrow> (w', db\<lparr>data := d', data_proto := pr'\<rparr>))"
  by (simp add: deleteEach_step_mem_def deleteEach_step_idx_def Let_def split: prod.splits)

lemma deleteEach_fold_mem_idx:
  "fold (deleteEach_step_mem value) ks (w, db) =
     (case fold (deleteEach_step_idx value) ks (w, data db, data_proto db) of
        (w', d', pr') \<Rightarrow> (w', db\<lparr>data := d', data_proto := pr'\<rparr>))"
proof (induction ks arbitrary: w db)
  case Nil
  show ?case by simp
next
  case (Cons k ks)
  obtain w1 d1 pr1 where s: "deleteEach_step_idx value k (w, data db, data_proto db) = (w1, d1, pr1)"
    by (cases "deleteEach_step_idx value k (w, data db, data_proto db)") auto
  show ?case
    by (simp add: deleteEach_step_mem_idx s Cons.IH)
qed

lemma deleteEach_step_idx_own:
  assumes "map_of d k = Some v"
  shows "\<exists>w' d'. deleteEach_step_idx value k (w, d, pr) = (w', d', pr) \<and>
           files w' = files w \<and> writes w' = writes w \<and> log w' = log w \<and>
           object_proto w' = object_proto w \<and> array_proto w' = array_proto w \<and>
           deleteEach_spec_entry value (Some v) (map_of d' k) \<and>
           (\<forall>s. s \<noteq> k \<longrightarrow> map_of d' s = map_of d s)"
proof (cases "isArray (Data v)")
  case True
  then obtain a es where v: "v = JArr a es"
    by (cases v) auto
  show ?thesis
    using assms
    by (auto simp add: deleteEach_step_idx_def get_prop_def Let_def v put_prop_def
        reaches_setter_def update_conv' deleteEach_spec_entry_def)
next
  case False
  then have nv: "\<And>a es. v \<noteq> JArr a es" by auto
  show ?thesis
  proof (cases "strict_eq v value")
    case True
    with False assms nv show ?thesis
      by (auto simp add: deleteEach_step_idx_def get_prop_def Let_def delete_conv'
          deleteEach_spec_entry_def split: jsval.splits)
  next
    case False
    with \<open>\<not> isArray (Data v)\<close> assms nv show ?thesis
      by (auto simp add: deleteEach_step_idx_def get_prop_def Let_def
          deleteEach_spec_entry_def split: jsval.splits)
  qed
qed

lemma deleteEach_fold_idx:
  assumes "distinct ks" and "\<forall>k\<in>set ks. map_of d k \<noteq> None"
  shows "\<exists>w' d'. fold (deleteEach_step_idx value) ks (w, d, pr) = (w', d', pr) \<and>
           files w' = files w \<and> writes w' = writes w \<and> log w' = log w \<and>
           object_proto w' = object_proto w \<and> array_proto w' = array_proto w \<and>
           (\<forall>k\<in>set ks. deleteEach_spec_entry value (map_of d k) (map_of d' k)) \<and>
           (\<forall>s. s \<notin> set ks \<longrightarrow> map_of d' s = map_of d s)"
  using assms
proof (induction ks arbitrary: w d)
  case Nil
  show ?case by simp
next
  case (Cons k ks)
  from Cons.prems obtain v where v: "map_of d k = Some v" by auto
  from deleteEach_step_idx_own [OF v, of "value" w pr]
  obtain w1 d1 where s: "deleteEach_step_idx value k (w, d, pr) = (w1, d1, pr)"
    and f: "files w1 = files w" "writes w1 = writes w" "log w1 = log w"
      "object_proto w1 = object_proto w" "array_proto w1 = array_proto w"
    and e: "deleteEach_spec_entry value (Some v) (map_of d1 k)"
    and o: "\<forall>s. s \<noteq> k \<longrightarrow> map_of d1 s = map_of d s"
    by blast
  from Cons.prems have dk: "distinct ks" and nk: "k \<notin> set ks" by auto
  from Cons.prems o nk have own1: "\<forall>k'\<in>set ks. map_of d1 k' \<noteq> None" by auto
  from Cons.IH [OF dk own1, of w1]
  obtain w2 d2 where r: "fold (deleteEach_step_idx value) ks (w1, d1, pr) = (w2, d2, pr)"
    and f2: "files w2 = files w1" "writes w2 = writes w1" "log w2 = log w1"
      "object_proto w2 = object_proto w1" "array_proto w2 = array_proto w1"
    and e2: "\<forall>k'\<in>set ks. deleteEach_spec_entry value (map_of d1 k') (map_of d2 k')"
    and o2: "\<forall>s. s \<notin> set ks \<longrightarrow> map_of d2 s = map_of d1 s"
    by blast
  have "fold (deleteEach_step_idx value) (k # ks) (w, d, pr) = (w2, d2, pr)"
    by (simp add: s r)
  moreover have "deleteEach_spec_entry value (map_of d k) (map_of d2 k)"
    using e o2 nk v by simp
  moreover have "\<forall>k'\<in>set ks. deleteEach_spec_entry value (map_of d k') (map_of d2 k')"
  proof
    fix k' assume k': "k' \<in> set ks"
    with nk have "k' \<noteq> k" by auto
    with o have "map_of d1 k' = map_of d k'" by simp
    with e2 k' show "deleteEach_spec_entry value (map_of d k') (map_of d2 k')" by auto
  qed
  moreover have "\<forall>s. s \<notin> set (k # ks) \<longrightarrow> map_of d2 s = map_of d s"
    using o o2 by auto
  ultimately show ?case
    using f f2 by auto
qed
lemma parse_props_distinct:
  "distinct (map fst acc) \<Longrightarrow> distinct (map fst (fst (parse_props n kjs acc)))"
proof (induction kjs arbitrary: n acc)
  case Nil
  then show ?case by simp
next
  case (Cons kj kjs)
  obtain k j where kj: "kj = (k, j)" by (cases kj)
  obtain v m where p: "parse n j = (v, m)" by (cases "parse n j")
  from Cons.prems have "distinct (map fst (AList.update k v acc))"
    by (rule distinct_update)
  from Cons.IH [OF this] show ?case
    by (simp add: kj p)
qed

lemma loadData_idx_distinct: "distinct (map fst (fst (loadData_idx u fp)))"
proof -
  have "distinct (map fst (fst (parse_props n kjs [])))" for n kjs
    by (rule parse_props_distinct) simp
  then show ?thesis
    by (simp add: loadData_idx_def case_prod_beta split: option.splits content.splits)
qed

lemma own_keys_present: "\<forall>k\<in>set (object_keys d). map_of d k \<noteq> None"
  by (auto simp add: object_keys_def map_of_eq_None_iff)

lemma deleteEach_fold_all:
  assumes "distinct (map fst d)"
  shows "\<exists>w' d'. fold (deleteEach_step_idx value) (object_keys d) (w, d, pr) = (w', d', pr) \<and>
           files w' = files w \<and> writes w' = writes w \<and> log w' = log w \<and>
           (\<forall>k. deleteEach_spec_entry value (map_of d k) (map_of d' k))"
proof -
  from assms have dk: "distinct (object_keys d)" by (simp add: object_keys_def)
  from deleteEach_fold_idx [OF dk own_keys_present, of "value" w pr]
  obtain w' d' where r: "fold (deleteEach_step_idx value) (object_keys d) (w, d, pr) = (w', d', pr)"
    and f: "files w' = files w" "writes w' = writes w" "log w' = log w"
    and e: "\<forall>k\<in>set (object_keys d). deleteEach_spec_entry value (map_of d k) (map_of d' k)"
    and o: "\<forall>s. s \<notin> set (object_keys d) \<longrightarrow> map_of d' s = map_of d s"
    by blast
  have "deleteEach_spec_entry value (map_of d k) (map_of d' k)" for k
  proof (cases "k \<in> set (object_keys d)")
    case True
    with e show ?thesis by simp
  next
    case False
    then have "map_of d k = None"
      by (simp add: object_keys_def map_of_eq_None_iff)
    with o False show ?thesis by (simp add: deleteEach_spec_entry_def)
  qed
  with r f show ?thesis by blast
qed

text \<open>
  Claim C5, amended.  One call of \<^verbatim>\<open>deleteEach(value)\<close> succeeds and treats every key
  of the document as the specification says: an array is replaced by the array of its
  elements that are not strictly equal to the value, any other entry strictly equal to
  the value is removed, and every other entry is as before.  The loop writes no file,
  and the call ends with the one write of the final document: the store that keeps the
  document in memory writes exactly once.  The store that reloads the file works on the
  document just loaded and writes it once after the loop; its loading has written the
  empty document before that when the file did not exist, and nothing otherwise.  (The
  keys of a document are distinct, as the properties of an object are.)
\<close>

theorem deleteEach_all_keys:
  "(distinct (map fst (data db)) \<longrightarrow>
      (case deleteEach_mem w db v of
         (r, w', db') \<Rightarrow>
           r = Inr () \<and>
           (\<forall>k. deleteEach_spec_entry v (map_of (data db) k) (map_of (data db') k)) \<and>
           data_proto db' = data_proto db \<and> filePath db' = filePath db \<and>
           files w' = (files w)(filePath db \<mapsto> Document (stringify_doc (data db'))) \<and>
           writes w' = writes w @ [(filePath db, Document (stringify_doc (data db')))])) \<and>
   (\<exists>d'. (\<forall>k. deleteEach_spec_entry v (map_of (fst (loadData_idx u fp)) k) (map_of d' k)) \<and>
      files (deleteEach_idx u fp v) =
        (files (snd (loadData_idx u fp)))(fp \<mapsto> Document (stringify_doc d')) \<and>
      writes (deleteEach_idx u fp v) =
        writes (snd (loadData_idx u fp)) @ [(fp, Document (stringify_doc d'))]) \<and>
   writes (snd (loadData_idx u fp)) =
     (if existsSync u fp then writes u else writes u @ [(fp, Document [])])"
proof (intro conjI impI)
  assume "distinct (map fst (data db))"
  from deleteEach_fold_all [OF this, of v w "data_proto db"]
  obtain w' d' where
    r: "fold (deleteEach_step_idx v) (object_keys (data db)) (w, data db, data_proto db) =
          (w', d', data_proto db)"
    and f: "files w' = files w" "writes w' = writes w"
    and e: "\<forall>k. deleteEach_spec_entry v (map_of (data db) k) (map_of d' k)"
    by blast
  show "case deleteEach_mem w db v of
         (r, w', db') \<Rightarrow>
           r = Inr () \<and>
           (\<forall>k. deleteEach_spec_entry v (map_of (data db) k) (map_of (data db') k)) \<and>
           data_proto db' = data_proto db \<and> filePath db' = filePath db \<and>
           files w' = (files w)(filePath db \<mapsto> Document (stringify_doc (data db'))) \<and>
           writes w' = writes w @ [(filePath db, Document (stringify_doc (data db')))]"
    using e f
    by (simp add: deleteEach_mem_def deleteEach_fold_mem_idx r saveData_mem_def writeFileSync_def)
next
  obtain d u1 where l: "loadData_idx u fp = (d, u1)" by (cases "loadData_idx u fp")
  from loadData_idx_distinct [of u fp] l have "distinct (map fst d)" by simp
  from deleteEach_fold_all [OF this, of v u1 DefaultProto]
  obtain w' d' where
    r: "fold (deleteEach_step_idx v) (object_keys d) (u1, d, DefaultProto) =
          (w', d', DefaultProto)"
    and f: "files w' = files u1" "writes w' = writes u1"
    and e: "\<forall>k. deleteEach_spec_entry v (map_of d k) (map_of d' k)"
    by blast
  have "files (deleteEach_idx u fp v) = (files u1)(fp \<mapsto> Document (stringify_doc d'))"
    and "writes (deleteEach_idx u fp v) = writes u1 @ [(fp, Document (stringify_doc d'))]"
    by (simp_all add: deleteEach_idx_def l r saveData_idx_def writeFileSync_def f)
  with e l show "\<exists>d'. (\<forall>k. deleteEach_spec_entry v (map_of (fst (loadData_idx u fp)) k)
        (map_of d' k)) \<and>
      files (deleteEach_idx u fp v) =
        (files (snd (loadData_idx u fp)))(fp \<mapsto> Document (stringify_doc d')) \<and>
      writes (deleteEach_idx u fp v) =
        writes (snd (loadData_idx u fp)) @ [(fp, Document (stringify_doc d'))]"
    by auto
next
  show "writes (snd (loadData_idx u fp)) =
     (if existsSync u fp then writes u else writes u @ [(fp, Document [])])"
    by (rule loadData_idx_writes)
qed

theorem deleteEach_all_keys_witness:
  "distinct (map fst (data db1)) \<and>
   (\<exists>w' db' c.
      deleteEach_mem world1_loaded db1 (JNum (Fin 1)) = (Inr (), w', db') \<and>
      map_of (data db') ''list'' = Some (JArr c [JObj 1 [(''a'', JNum (Fin 1))], JNum (Fin 2)]) \<and>
      map_of (data db') ''name'' = Some (JStr ''x'') \<and>
      files w' ''database.json'' = Some (Document (stringify_doc (data db'))) \<and>
      writes w' = [(''database.json'', Document (stringify_doc (data db')))]) \<and>
   (\<exists>w' db'.
      deleteEach_mem world1_loaded db1 (JStr ''x'') = (Inr (), w', db') \<and>
      map_of (data db') ''name'' = None \<and>
      map_of (data db') ''counter'' = Some (JNum (Fin 10))) \<and>
   existsSync world1 ''database.json'' \<and>
   (\<exists>d'. writes (deleteEach_idx world1 ''database.json'' (JNum (Fin 1))) =
      [(''database.json'', Document (stringify_doc d'))])"
proof -
  have d: "distinct (map fst (data db1))"
    by (simp add: db1_fields data1_def)
  have m: "map_of (data db1) ''list'' =
      Some (JArr 0 [JNum (Fin 1), JObj 1 [(''a'', JNum (Fin 1))], JNum (Fin 2), JNum (Fin 1)])"
    "map_of (data db1) ''name'' = Some (JStr ''x'')"
    "map_of (data db1) ''counter'' = Some (JNum (Fin 10))"
    by (simp_all add: db1_fields data1_def)
  obtain r w' db' where a: "deleteEach_mem world1_loaded db1 (JNum (Fin 1)) = (r, w', db')"
    by (cases "deleteEach_mem world1_loaded db1 (JNum (Fin 1))") auto
  obtain r2 w2 db2 where b: "deleteEach_mem world1_loaded db1 (JStr ''x'') = (r2, w2, db2)"
    by (cases "deleteEach_mem world1_loaded db1 (JStr ''x'')") auto
  from deleteEach_all_keys [where db = db1 and w = world1_loaded and v = "JNum (Fin 1)"
      and u = world1 and fp = "''database.json''"] d a
  have a1: "r = Inr ()"
    and a2: "\<And>k. deleteEach_spec_entry (JNum (Fin 1)) (map_of (data db1) k) (map_of (data db') k)"
    and a3: "files w' = (files world1_loaded)(filePath db1 \<mapsto> Document (stringify_doc (data db')))"
    and a4: "writes w' = writes world1_loaded @ [(filePath db1, Document (stringify_doc (data db')))]"
    and a5: "\<exists>d'. writes (deleteEach_idx world1 ''database.json'' (JNum (Fin 1))) =
        writes (snd (loadData_idx world1 ''database.json'')) @
          [(''database.json'', Document (stringify_doc d'))]"
    by auto
  from deleteEach_all_keys [where db = db1 and w = world1_loaded and v = "JStr ''x''"] d b
  have b1: "r2 = Inr ()"
    and b2: "\<And>k. deleteEach_spec_entry (JStr ''x'') (map_of (data db1) k) (map_of (data db2) k)"
    by auto
  from a2 [of "''list''"] have "\<exists>c. map_of (data db') ''list'' =
      Some (JArr c [JObj 1 [(''a'', JNum (Fin 1))], JNum (Fin 2)])"
    by (auto simp add: deleteEach_spec_entry_def m filter_ne_def strict_eq_def num_eq_def
        split: option.splits jsval.splits)
  then obtain c where l: "map_of (data db') ''list'' =
      Some (JArr c [JObj 1 [(''a'', JNum (Fin 1))], JNum (Fin 2)])"
    by blast
  from a2 [of "''name''"] have n: "map_of (data db') ''name'' = Some (JStr ''x'')"
    by (simp add: deleteEach_spec_entry_def m strict_eq_def)
  from b2 [of "''name''"] have n2: "map_of (data db2) ''name'' = None"
    by (simp add: deleteEach_spec_entry_def m strict_eq_def)
  from b2 [of "''counter''"] have c2: "map_of (data db2) ''counter'' = Some (JNum (Fin 10))"
    by (simp add: deleteEach_spec_entry_def m strict_eq_def)
  from a3 have fl: "files w' ''database.json'' = Some (Document (stringify_doc (data db')))"
    by (simp add: db1_fields)
  have wr: "writes world1_loaded = []" "writes world1 = []"
    by (simp_all add: world1_loaded_def world1_def node_world_def)
  from a4 have wl: "writes w' = [(''database.json'', Document (stringify_doc (data db')))]"
    by (simp add: wr db1_fields)
  have ex: "existsSync world1 ''database.json''"
    by (simp add: existsSync_def world1_fields)
  from a5 have wi: "\<exists>d'. writes (deleteEach_idx world1 ''database.json'' (JNum (Fin 1))) =
      [(''database.json'', Document (stringify_doc d'))]"
    by (simp add: loadData_idx_world1 world1_loaded_def wr)
  show ?thesis
    using d a b a1 b1 l n n2 c2 fl wl ex wi by blast
qed

text \<open>
  Claim C5 as stated fails on the store that reloads the file when the file does not
  exist: the call writes the file twice, first in loading and then after the loop.
\<close>

theorem deleteEach_idx_two_writes_counterexample:
  "\<not> existsSync node_world ''database.json'' \<and> writes node_world = [] \<and>
   writes (deleteEach_idx node_world ''database.json'' (JNum (Fin 1))) =
     [(''database.json'', Document []), (''database.json'', Document [])]"
  by (simp add: deleteEach_idx_def loadData_idx_def existsSync_def saveData_idx_def
      writeFileSync_def object_keys_def stringify_doc_def node_world_def)

subsection \<open>Strict equality in delete and deleteEach\<close>

lemma strict_eq_same_address:
  assumes "strict_eq x y" and "\<not> primitive x"
  shows "address x = address y \<and> \<not> primitive y"
  using assms by (cases x; cases y) (auto simp add: strict_eq_def)

lemma set_filter_ne:
  "x \<in> set (filter_ne es v) \<longleftrightarrow> x \<in> set es \<and> x \<noteq> JHole \<and> \<not> strict_eq x v"
  by (simp add: filter_ne_def)

lemma strict_eq_primitive:
  assumes "primitive x" and "x \<noteq> JNum NaN" and "x \<noteq> JHole" and "y \<noteq> JHole"
  shows "strict_eq x y \<longleftrightarrow> x = y"
  using assms by (cases x) (auto simp add: strict_eq_def num_eq_def split: jsval.splits)

lemma deep_equal_not_strict:
  assumes "\<not> primitive x" and "address x \<noteq> address y"
  shows "\<not> strict_eq x y"
  using assms strict_eq_same_address by blast

lemma delete_mem_own_array:
  assumes "map_of (data db) key = Some (JArr c es)"
  shows "delete_mem w db key v =
     (Inr (),
      saveData_mem (w\<lparr>next_addr := Suc (next_addr w)\<rparr>)
        (db\<lparr>data := AList.update key (JArr (next_addr w) (filter_ne es v)) (data db)\<rparr>),
      db\<lparr>data := AList.update key (JArr (next_addr w) (filter_ne es v)) (data db)\<rparr>)"
  using assms
  by (simp add: delete_mem_def get_prop_def Let_def put_prop_def reaches_setter_def)

text \<open>
  Claim C10.  \<^verbatim>\<open>delete(key, value)\<close> on an array stored under the key, and
  \<^verbatim>\<open>deleteEach(value)\<close> on every array of the document, keep exactly the elements
  that are not strictly equal to the value.  An array or object among the elements that
  is deep-equal to the value but lives in another cell is kept; an element that is
  removed is strictly equal to the value, and is a primitive or lives in the cell of the
  value; on primitives (other than \<^verbatim>\<open>NaN\<close>) strict equality is equality of values.
\<close>

theorem delete_compares_by_identity:
  "(map_of (data db) key = Some (JArr c es) \<longrightarrow>
      (case delete_mem w db key v of
         (r, w', db') \<Rightarrow>
           r = Inr () \<and> map_of (data db') key = Some (JArr (next_addr w) (filter_ne es v)))) \<and>
   (distinct (map fst (data d2)) \<and> map_of (data d2) key2 = Some (JArr c2 es2) \<longrightarrow>
      (case deleteEach_mem w2 d2 v2 of
         (r, w', db') \<Rightarrow>
           r = Inr () \<and> (\<exists>c'. map_of (data db') key2 = Some (JArr c' (filter_ne es2 v2))))) \<and>
   (x \<in> set es3 \<and> \<not> primitive x \<and> deep_equal x v3 \<and> address x \<noteq> address v3 \<longrightarrow>
      x \<in> set (filter_ne es3 v3)) \<and>
   (y \<in> set es4 \<and> y \<noteq> JHole \<and> y \<notin> set (filter_ne es4 v4) \<longrightarrow>
      strict_eq y v4 \<and> (primitive y \<or> address y = address v4)) \<and>
   (z \<in> set es5 \<and> strict_eq z v5 \<longrightarrow> z \<notin> set (filter_ne es5 v5)) \<and>
   (primitive p \<and> p \<noteq> JNum NaN \<and> p \<noteq> JHole \<and> v6 \<noteq> JHole \<longrightarrow>
      (strict_eq p v6 \<longleftrightarrow> p = v6))"
proof (intro conjI impI)
  assume "map_of (data db) key = Some (JArr c es)"
  then show "case delete_mem w db key v of
         (r, w', db') \<Rightarrow>
           r = Inr () \<and> map_of (data db') key = Some (JArr (next_addr w) (filter_ne es v))"
    by (simp add: delete_mem_own_array update_conv')
next
  assume a: "distinct (map fst (data d2)) \<and> map_of (data d2) key2 = Some (JArr c2 es2)"
  from deleteEach_fold_all [of "data d2" v2 w2 "data_proto d2"] a
  obtain w' d' where
    r: "fold (deleteEach_step_idx v2) (object_keys (data d2)) (w2, data d2, data_proto d2) =
          (w', d', data_proto d2)"
    and e: "\<forall>k. deleteEach_spec_entry v2 (map_of (data d2) k) (map_of d' k)"
    by blast
  from e have "deleteEach_spec_entry v2 (map_of (data d2) key2) (map_of d' key2)"
    by blast
  with a have "deleteEach_spec_entry v2 (Some (JArr c2 es2)) (map_of d' key2)"
    by simp
  then have "\<exists>c'. map_of d' key2 = Some (JArr c' (filter_ne es2 v2))"
    by (cases "map_of d' key2")
      (auto simp add: deleteEach_spec_entry_def split: jsval.splits)
  then show "case deleteEach_mem w2 d2 v2 of
         (r, w', db') \<Rightarrow>
           r = Inr () \<and> (\<exists>c'. map_of (data db') key2 = Some (JArr c' (filter_ne es2 v2)))"
    by (simp add: deleteEach_mem_def deleteEach_fold_mem_idx r)
next
  assume "x \<in> set es3 \<and> \<not> primitive x \<and> deep_equal x v3 \<and> address x \<noteq> address v3"
  then have h: "x \<in> set es3" "\<not> primitive x" "address x \<noteq> address v3"
    by simp_all
  from h(2) have "x \<noteq> JHole" by auto
  moreover from h(2,3) have "\<not> strict_eq x v3" by (rule deep_equal_not_strict)
  ultimately show "x \<in> set (filter_ne es3 v3)"
    using h(1) by (simp add: set_filter_ne)
next
  assume "y \<in> set es4 \<and> y \<noteq> JHole \<and> y \<notin> set (filter_ne es4 v4)"
  then have s: "strict_eq y v4" by (auto simp add: set_filter_ne)
  then show "strict_eq y v4" .
  from s show "primitive y \<or> address y = address v4"
    using strict_eq_same_address by blast
next
  assume "z \<in> set es5 \<and> strict_eq z v5"
  then show "z \<notin> set (filter_ne es5 v5)" by (simp add: set_filter_ne)
next
  assume "primitive p \<and> p \<noteq> JNum NaN \<and> p \<noteq> JHole \<and> v6 \<noteq> JHole"
  then show "strict_eq p v6 \<longleftrightarrow> p = v6" by (simp add: strict_eq_primitive)
qed

theorem delete_compares_by_identity_witness:
  "map_of (data db1) ''list'' =
     Some (JArr 0 [JNum (Fin 1), JObj 1 [(''a'', JNum (Fin 1))], JNum (Fin 2), JNum (Fin 1)]) \<and>
   distinct (map fst (data db1)) \<and>
   \<not> primitive (JObj 1 [(''a'', JNum (Fin 1))]) \<and>
   deep_equal (JObj 1 [(''a'', JNum (Fin 1))]) (JObj 7 [(''a'', JNum (Fin 1))]) \<and>
   address (JObj 1 [(''a'', JNum (Fin 1))]) \<noteq> address (JObj 7 [(''a'', JNum (Fin 1))]) \<and>
   (\<exists>w' db' fs.
      delete_mem world1_loaded db1 ''list'' (JObj 7 [(''a'', JNum (Fin 1))]) = (Inr (), w', db') \<and>
      map_of (data db') ''list'' = Some (JArr 3 fs) \<and> JObj 1 [(''a'', JNum (Fin 1))] \<in> set fs) \<and>
   (\<exists>w' db' c' fs.
      deleteEach_mem world1_loaded db1 (JObj 7 [(''a'', JNum (Fin 1))]) = (Inr (), w', db') \<and>
      map_of (data db') ''list'' = Some (JArr c' fs) \<and> JObj 1 [(''a'', JNum (Fin 1))] \<in> set fs) \<and>
   JNum (Fin 1) \<notin> set (filter_ne [JNum (Fin 1), JNum (Fin 2)] (JNum (Fin 1))) \<and>
   strict_eq (JNum (Fin 1)) (JNum (Fin 1)) \<and> primitive (JNum (Fin 1)) \<and>
   \<not> strict_eq (JNum (Fin 1)) (JNum (Fin 2))"
proof -
  let ?o = "JObj 1 [(''a'', JNum (Fin 1))]"
  let ?v = "JObj 7 [(''a'', JNum (Fin 1))]"
  let ?es = "[JNum (Fin 1), ?o, JNum (Fin 2), JNum (Fin 1)]"
  have m: "map_of (data db1) ''list'' = Some (JArr 0 ?es)"
    by (simp add: db1_fields data1_def)
  have d: "distinct (map fst (data db1))"
    by (simp add: db1_fields data1_def)
  have o: "?o \<in> set ?es" "\<not> primitive ?o" "deep_equal ?o ?v" "address ?o \<noteq> address ?v"
    by (simp_all add: deep_equal_def)
  have n: "JNum (Fin 1) \<in> set [JNum (Fin 1), JNum (Fin 2)]" "JNum (Fin 1) \<noteq> JHole"
    "JNum (Fin 1) \<notin> set (filter_ne [JNum (Fin 1), JNum (Fin 2)] (JNum (Fin 1)))"
    "strict_eq (JNum (Fin 1)) (JNum (Fin 1))" "primitive (JNum (Fin 1))"
    "JNum (Fin 1) \<noteq> JNum NaN" "JNum (Fin 2) \<noteq> JHole"
    by (simp_all add: filter_ne_def strict_eq_def num_eq_def)
  obtain r w' db' where a: "delete_mem world1_loaded db1 ''list'' ?v = (r, w', db')"
    by (cases "delete_mem world1_loaded db1 ''list'' ?v") auto
  obtain r2 w2 db2 where b: "deleteEach_mem world1_loaded db1 ?v = (r2, w2, db2)"
    by (cases "deleteEach_mem world1_loaded db1 ?v") auto
  note t = delete_compares_by_identity
    [where db = db1 and key = "''list''" and c = 0 and es = ?es and w = world1_loaded
       and v = ?v and ?d2.0 = db1 and ?key2.0 = "''list''" and ?c2.0 = 0 and ?es2.0 = ?es
       and ?w2.0 = world1_loaded and ?v2.0 = ?v and x = ?o and ?es3.0 = ?es and ?v3.0 = ?v
       and y = "JNum (Fin 1)" and ?es4.0 = "[JNum (Fin 1), JNum (Fin 2)]"
       and ?v4.0 = "JNum (Fin 1)" and z = "JNum (Fin 1)"
       and ?es5.0 = "[JNum (Fin 1), JNum (Fin 2)]" and ?v5.0 = "JNum (Fin 1)"
       and p = "JNum (Fin 1)" and ?v6.0 = "JNum (Fin 2)"]
  from t m a have a1: "r = Inr ()"
    and a2: "map_of (data db') ''list'' = Some (JArr 3 (filter_ne ?es ?v))"
    by (simp_all add: world1_loaded_fields)
  from t m d b have b1: "r2 = Inr ()"
    and b2: "\<exists>c'. map_of (data db2) ''list'' = Some (JArr c' (filter_ne ?es ?v))"
    by simp_all
  from t o have k: "?o \<in> set (filter_ne ?es ?v)" by blast
  from t n have e: "\<not> strict_eq (JNum (Fin 1)) (JNum (Fin 2))" by simp
  show ?thesis
    using m d o n a b a1 a2 b1 b2 k e by blast
qed

subsection \<open>Writing the document and loading it again\<close>














end
